theory Spec2Isabelle
  imports Main "HOL-Library.AList"
begin

section \<open>Python values\<close>

text \<open>
  The tools of \<^verbatim>\<open>ap.py\<close> turn the JSON value an upstream service answers with into one
  text. The value is whatever \<^verbatim>\<open>response.json()\<close> returns, so the model has the whole
  type: \<^verbatim>\<open>None\<close>, booleans, integers (unbounded, as in Python), floats, strings, lists
  and dictionaries.

  \<^item> A string is a list of characters, each character one code point below 256.
  \<^item> A float is carried by the text \<^verbatim>\<open>repr\<close> gives it (\<^verbatim>\<open>39.7456\<close>, \<^verbatim>\<open>200.0\<close>,
    \<^verbatim>\<open>nan\<close>): the code only formats floats, tests them for zero and compares them
    with \<^verbatim>\<open>200\<close>, and all three are read off that text.
  \<^item> A dictionary is the list of its items; a key is looked up with \<open>map_of\<close>, which
    sees the first item of that key.
\<close>

datatype pyfloat = PyFloat (float_repr: string)

datatype json =
    JNull
  | JBool bool
  | JInt int
  | JFloat pyfloat
  | JStr string
  | JList "json list"
  | JObj "(string \<times> json) list"

text \<open>The exceptions the tools can raise on a value of the wrong shape.\<close>

datatype py_error = KeyError string | TypeError | AttributeError

type_synonym 'a result = "py_error + 'a"

definition and_then :: "'a result \<Rightarrow> ('a \<Rightarrow> 'b result) \<Rightarrow> 'b result" where
  "and_then m f = (case m of Inl e \<Rightarrow> Inl e | Inr x \<Rightarrow> f x)"

text \<open>A comprehension or a \<^verbatim>\<open>for\<close> loop that appends: the first exception ends it.\<close>

fun collect :: "('a \<Rightarrow> 'b result) \<Rightarrow> 'a list \<Rightarrow> 'b list result" where
  "collect f [] = Inr []"
| "collect f (x # xs) =
     and_then (f x) (\<lambda>y. and_then (collect f xs) (\<lambda>ys. Inr (y # ys)))"

subsection \<open>Truth value, \<^verbatim>\<open>str\<close> and \<^verbatim>\<open>repr\<close>\<close>

fun py_truthy :: "json \<Rightarrow> bool" where
  "py_truthy JNull = False"
| "py_truthy (JBool b) = b"
| "py_truthy (JInt i) = (i \<noteq> 0)"
| "py_truthy (JFloat f) = (float_repr f \<noteq> ''0.0'' \<and> float_repr f \<noteq> ''-0.0'')"
| "py_truthy (JStr s) = (s \<noteq> [])"
| "py_truthy (JList xs) = (xs \<noteq> [])"
| "py_truthy (JObj d) = (d \<noteq> [])"

definition digit_char :: "nat \<Rightarrow> char" where
  "digit_char n = char_of (48 + n)"

fun str_nat :: "nat \<Rightarrow> string" where
  "str_nat n = (if n < 10 then [digit_char n] else str_nat (n div 10) @ [digit_char (n mod 10)])"

declare str_nat.simps [simp del]

definition str_int :: "int \<Rightarrow> string" where
  "str_int i = (if i < 0 then ''-'' @ str_nat (nat (- i)) else str_nat (nat i))"

definition hex_char :: "nat \<Rightarrow> char" where
  "hex_char n = (if n < 10 then char_of (48 + n) else char_of (87 + n))"

text \<open>
  \<^verbatim>\<open>repr\<close> of a string: single quotes, unless the string has a single quote and no
  double quote; the backslash, the chosen quote, tab, newline and carriage return are
  escaped, every other character that is not printable is written \<^verbatim>\<open>\xNN\<close>.
\<close>

definition printable :: "char \<Rightarrow> bool" where
  "printable c = (let n = (of_char c :: nat) in
     (32 \<le> n \<and> n < 127) \<or> (161 \<le> n \<and> n \<noteq> 173))"

definition repr_char :: "char \<Rightarrow> char \<Rightarrow> string" where
  "repr_char q c =
     (if c = CHR 0x5C then [CHR 0x5C, CHR 0x5C]
      else if c = q then [CHR 0x5C, q]
      else if c = CHR 0x09 then [CHR 0x5C, CHR ''t'']
      else if c = CHR 0x0A then [CHR 0x5C, CHR ''n'']
      else if c = CHR 0x0D then [CHR 0x5C, CHR ''r'']
      else if printable c then [c]
      else [CHR 0x5C, CHR ''x'', hex_char (of_char c div 16), hex_char (of_char c mod 16)])"

definition repr_str :: "string \<Rightarrow> string" where
  "repr_str s =
     (let q = (if CHR 0x27 \<in> set s \<and> CHR 0x22 \<notin> set s then CHR 0x22 else CHR 0x27)
      in [q] @ concat (map (repr_char q) s) @ [q])"

fun py_repr :: "json \<Rightarrow> string"
  and repr_items :: "json list \<Rightarrow> string"
  and repr_pairs :: "(string \<times> json) list \<Rightarrow> string" where
  "py_repr JNull = ''None''"
| "py_repr (JBool b) = (if b then ''True'' else ''False'')"
| "py_repr (JInt i) = str_int i"
| "py_repr (JFloat f) = float_repr f"
| "py_repr (JStr s) = repr_str s"
| "py_repr (JList xs) = ''['' @ repr_items xs @ '']''"
| "py_repr (JObj d) = ''{'' @ repr_pairs d @ ''}''"
| "repr_items [] = []"
| "repr_items [x] = py_repr x"
| "repr_items (x # y # ys) = py_repr x @ '', '' @ repr_items (y # ys)"
| "repr_pairs [] = []"
| "repr_pairs [(k, v)] = repr_str k @ '': '' @ py_repr v"
| "repr_pairs ((k, v) # p # ps) = repr_str k @ '': '' @ py_repr v @ '', '' @ repr_pairs (p # ps)"

text \<open>What an f-string puts in place of \<^verbatim>\<open>{v}\<close>: \<^verbatim>\<open>str(v)\<close>.\<close>

fun py_str :: "json \<Rightarrow> string" where
  "py_str (JStr s) = s"
| "py_str v = py_repr v"

subsection \<open>The operations the tools apply to a value\<close>

text \<open>\<^verbatim>\<open>d.get(k, default)\<close> on a dictionary.\<close>

definition dict_get :: "(string \<times> json) list \<Rightarrow> string \<Rightarrow> json \<Rightarrow> json" where
  "dict_get d k dflt = (case map_of d k of None \<Rightarrow> dflt | Some v \<Rightarrow> v)"

text \<open>\<^verbatim>\<open>v.get(k, default)\<close> on any value: only a dictionary has the method.\<close>

fun py_get :: "json \<Rightarrow> string \<Rightarrow> json \<Rightarrow> json result" where
  "py_get (JObj d) k dflt = Inr (dict_get d k dflt)"
| "py_get _ k dflt = Inl AttributeError"

text \<open>\<^verbatim>\<open>v[k]\<close> with a string \<open>k\<close>: a missing key raises, and so does every value that is
  not a dictionary (a list or a string wants an integer index).\<close>

fun py_getitem :: "json \<Rightarrow> string \<Rightarrow> json result" where
  "py_getitem (JObj d) k = (case map_of d k of None \<Rightarrow> Inl (KeyError k) | Some v \<Rightarrow> Inr v)"
| "py_getitem _ k = Inl TypeError"

fun is_substring :: "string \<Rightarrow> string \<Rightarrow> bool" where
  "is_substring k [] = (k = [])"
| "is_substring k (c # cs) = (take (length k) (c # cs) = k \<or> is_substring k cs)"

text \<open>\<^verbatim>\<open>k in v\<close> with a string \<open>k\<close>: a key of a dictionary, an element of a list, a
  substring of a string; the other values are not iterable.\<close>

fun py_contains :: "string \<Rightarrow> json \<Rightarrow> bool result" where
  "py_contains k (JObj d) = Inr (map_of d k \<noteq> None)"
| "py_contains k (JList xs) = Inr (JStr k \<in> set xs)"
| "py_contains k (JStr s) = Inr (is_substring k s)"
| "py_contains k _ = Inl TypeError"

text \<open>\<^verbatim>\<open>for x in v\<close>: the elements of a list, the keys of a dictionary, the characters
  of a string.\<close>

fun py_iter :: "json \<Rightarrow> json list result" where
  "py_iter (JList xs) = Inr xs"
| "py_iter (JObj d) = Inr (map (\<lambda>kv. JStr (fst kv)) d)"
| "py_iter (JStr s) = Inr (map (\<lambda>c. JStr [c]) s)"
| "py_iter _ = Inl TypeError"

text \<open>\<^verbatim>\<open>v[:n]\<close>: lists and strings can be sliced. (A dictionary raises TypeError up to
  Python 3.11 and KeyError from 3.12 on; the model has the former.)\<close>

fun py_slice :: "nat \<Rightarrow> json \<Rightarrow> json result" where
  "py_slice n (JList xs) = Inr (JList (take n xs))"
| "py_slice n (JStr s) = Inr (JStr (take n s))"
| "py_slice n _ = Inl TypeError"

fun py_len :: "json \<Rightarrow> nat result" where
  "py_len (JStr s) = Inr (length s)"
| "py_len (JList xs) = Inr (length xs)"
| "py_len (JObj d) = Inr (length d)"
| "py_len _ = Inl TypeError"

fun is_list :: "json \<Rightarrow> bool" where
  "is_list (JList xs) = True"
| "is_list _ = False"

text \<open>\<^verbatim>\<open>sep.join(xs)\<close> on strings.\<close>

fun py_join :: "string \<Rightarrow> string list \<Rightarrow> string" where
  "py_join sep [] = []"
| "py_join sep [x] = x"
| "py_join sep (x # y # ys) = x @ sep @ py_join sep (y # ys)"

text \<open>\<^verbatim>\<open>sep.join(xs)\<close> on values: an item that is not a string raises TypeError.\<close>

fun as_str :: "json \<Rightarrow> string result" where
  "as_str (JStr s) = Inr s"
| "as_str _ = Inl TypeError"

definition py_join_values :: "string \<Rightarrow> json list \<Rightarrow> string result" where
  "py_join_values sep xs = and_then (collect as_str xs) (\<lambda>ss. Inr (py_join sep ss))"

subsection \<open>f-strings\<close>

text \<open>
  An f-string is the list of its parts, literal texts and \<^verbatim>\<open>{expression}\<close> slots,
  evaluated from left to right: the first slot that raises ends it, otherwise the texts
  are concatenated. A slot is written \<open>fmt e\<close> and holds \<^verbatim>\<open>str\<close> of the value of \<open>e\<close>.
\<close>

fun fstring :: "string result list \<Rightarrow> string result" where
  "fstring [] = Inr []"
| "fstring (p # ps) = and_then p (\<lambda>s. and_then (fstring ps) (\<lambda>t. Inr (s @ t)))"

definition fmt :: "json result \<Rightarrow> string result" where
  "fmt e = and_then e (\<lambda>v. Inr (py_str v))"

text \<open>A loop \<^verbatim>\<open>for x in xs: result += f(x)\<close> on a text.\<close>

fun append_each :: "(json \<Rightarrow> string result) \<Rightarrow> string \<Rightarrow> json list \<Rightarrow> string result" where
  "append_each f result [] = Inr result"
| "append_each f result (x # xs) = and_then (f x) (\<lambda>s. append_each f (result @ s) xs)"

section \<open>Configuration and the upstream client\<close>

text \<open>
  The constants of the module. The two credentials are read from the environment once,
  at import: \<^verbatim>\<open>os.getenv\<close> gives \<^verbatim>\<open>None\<close> for a variable that is unset.
\<close>

definition NWS_API_BASE :: string where
  "NWS_API_BASE = ''https://api.weather.gov''"

definition GITHUB_API_BASE :: string where
  "GITHUB_API_BASE = ''https://api.github.com''"

definition USER_AGENT :: string where
  "USER_AGENT = ''weather-github-app/1.0''"

definition INDIAN_RAIL_BASE_URL :: string where
  "INDIAN_RAIL_BASE_URL = ''https://indianrailapi.com/api/v2''"

record config =
  INDIAN_RAIL_API_KEY :: "string option"
  GITHUB_TOKEN :: "string option"

text \<open>
  One GET request, and the upstream service as the answer it gives to each request:
  \<open>Inr\<close> the parsed JSON body, or \<open>Inl\<close> the message of the exception the request ends
  in (no connection, a status that is not a success, a body that is not JSON). Every
  request has the timeout of 30 seconds; a failure is also logged, which the model
  leaves out.
\<close>

record request =
  url :: string
  headers :: "(string \<times> string) list"
  follow_redirects :: bool

type_synonym upstream = "request \<Rightarrow> string + json"

text \<open>A tool returns the requests it issued, in order, and its text or the exception
  that leaves it.\<close>

type_synonym outcome = "request list \<times> string result"

definition nws_request :: "string \<Rightarrow> request" where
  "nws_request u =
     \<lparr>url = u,
      headers = [(''User-Agent'', USER_AGENT), (''Accept'', ''application/geo+json'')],
      follow_redirects = False\<rparr>"

text \<open>\<^verbatim>\<open>make_nws_request\<close>. The URL of the second request of \<^verbatim>\<open>get_forecast\<close> is read
  from a response, so it is any value: one that is not a string makes
  \<^verbatim>\<open>client.get\<close> raise inside the \<^verbatim>\<open>try\<close>, before anything is sent.\<close>

fun make_nws_request :: "upstream \<Rightarrow> json \<Rightarrow> request list \<times> json" where
  "make_nws_request up (JStr u) =
     ([nws_request u], case up (nws_request u) of Inl e \<Rightarrow> JNull | Inr j \<Rightarrow> j)"
| "make_nws_request up _ = ([], JNull)"

definition github_request :: "config \<Rightarrow> string \<Rightarrow> request" where
  "github_request cfg u =
     \<lparr>url = u,
      headers = [(''User-Agent'', USER_AGENT), (''Accept'', ''application/vnd.github.v3+json'')]
        @ (case GITHUB_TOKEN cfg of
             None \<Rightarrow> []
           | Some token \<Rightarrow> if token \<noteq> [] then [(''Authorization'', ''token '' @ token)] else []),
      follow_redirects = False\<rparr>"

definition make_github_request :: "config \<Rightarrow> upstream \<Rightarrow> string \<Rightarrow> request list \<times> json" where
  "make_github_request cfg up u =
     ([github_request cfg u], case up (github_request cfg u) of Inl e \<Rightarrow> JNull | Inr j \<Rightarrow> j)"

definition fetch_request :: "string \<Rightarrow> request" where
  "fetch_request u = \<lparr>url = u, headers = [], follow_redirects = True\<rparr>"

definition fetch_data :: "upstream \<Rightarrow> string \<Rightarrow> request list \<times> json" where
  "fetch_data up u =
     ([fetch_request u],
      case up (fetch_request u) of Inl e \<Rightarrow> JObj [(''error'', JStr e)] | Inr j \<Rightarrow> j)"

section \<open>Weather tools\<close>

definition separator :: string where
  "separator = ''\<newline>---\<newline>''"

definition format_alert :: "json \<Rightarrow> string result" where
  "format_alert feature =
     and_then (py_getitem feature ''properties'') (\<lambda>props. fstring
       [Inr ''\<newline>Event: '', fmt (py_get props ''event'' (JStr ''Unknown'')),
        Inr ''\<newline>Area: '', fmt (py_get props ''areaDesc'' (JStr ''Unknown'')),
        Inr ''\<newline>Severity: '', fmt (py_get props ''severity'' (JStr ''Unknown'')),
        Inr ''\<newline>Description: '',
        fmt (py_get props ''description'' (JStr ''No description available'')),
        Inr ''\<newline>Instructions: '',
        fmt (py_get props ''instruction'' (JStr ''No specific instructions provided'')),
        Inr ''\<newline>''])"

definition get_alerts_url :: "string \<Rightarrow> string" where
  "get_alerts_url state = NWS_API_BASE @ ''/alerts/active/area/'' @ state"

definition get_alerts_text :: "json \<Rightarrow> string result" where
  "get_alerts_text data =
     (if \<not> py_truthy data then Inr ''Unable to fetch alerts or no alerts found.''
      else and_then (py_contains ''features'' data) (\<lambda>present.
        if \<not> present then Inr ''Unable to fetch alerts or no alerts found.''
        else and_then (py_getitem data ''features'') (\<lambda>features.
          if \<not> py_truthy features then Inr ''No active alerts for this state.''
          else and_then (py_iter features) (\<lambda>fs.
               and_then (collect format_alert fs) (\<lambda>alerts.
               Inr (py_join separator alerts))))))"

definition get_alerts :: "upstream \<Rightarrow> string \<Rightarrow> outcome" where
  "get_alerts up state =
     (let (reqs, data) = make_nws_request up (JStr (get_alerts_url state))
      in (reqs, get_alerts_text data))"

text \<open>The coordinates of \<^verbatim>\<open>get_forecast\<close> are floats; the URL has their \<^verbatim>\<open>str\<close>.\<close>

definition get_forecast_url :: "pyfloat \<Rightarrow> pyfloat \<Rightarrow> string" where
  "get_forecast_url latitude longitude =
     NWS_API_BASE @ ''/points/'' @ float_repr latitude @ '','' @ float_repr longitude"

definition format_period :: "json \<Rightarrow> string result" where
  "format_period period = fstring
     [Inr ''\<newline>'', fmt (py_getitem period ''name''), Inr '':'',
      Inr ''\<newline>Temperature: '', fmt (py_getitem period ''temperature''),
      Inr [CHR 0xB0], fmt (py_getitem period ''temperatureUnit''),
      Inr ''\<newline>Wind: '', fmt (py_getitem period ''windSpeed''),
      Inr '' '', fmt (py_getitem period ''windDirection''),
      Inr ''\<newline>Forecast: '', fmt (py_getitem period ''detailedForecast''),
      Inr ''\<newline>'']"

text \<open>The loop of \<^verbatim>\<open>get_forecast\<close> over \<^verbatim>\<open>periods[:5]\<close>, which fills the list
  \<^verbatim>\<open>forecasts\<close>.\<close>

definition forecast_entries :: "json \<Rightarrow> string list result" where
  "forecast_entries periods =
     and_then (py_slice 5 periods) (\<lambda>first.
     and_then (py_iter first) (\<lambda>ps. collect format_period ps))"

definition get_forecast_text :: "json \<Rightarrow> string result" where
  "get_forecast_text forecast_data =
     and_then (py_getitem forecast_data ''properties'') (\<lambda>props.
     and_then (py_getitem props ''periods'') (\<lambda>periods.
     and_then (forecast_entries periods) (\<lambda>forecasts.
     Inr (py_join separator forecasts))))"

definition get_forecast :: "upstream \<Rightarrow> pyfloat \<Rightarrow> pyfloat \<Rightarrow> outcome" where
  "get_forecast up latitude longitude =
     (let (reqs, points_data) = make_nws_request up (JStr (get_forecast_url latitude longitude))
      in if \<not> py_truthy points_data
         then (reqs, Inr ''Unable to fetch forecast data for this location.'')
         else case and_then (py_getitem points_data ''properties'')
                     (\<lambda>props. py_getitem props ''forecast'') of
           Inl e \<Rightarrow> (reqs, Inl e)
         | Inr forecast_url \<Rightarrow>
             (let (reqs2, forecast_data) = make_nws_request up forecast_url
              in if \<not> py_truthy forecast_data
                 then (reqs @ reqs2, Inr ''Unable to fetch detailed forecast.'')
                 else (reqs @ reqs2, get_forecast_text forecast_data)))"

section \<open>GitHub tools\<close>

definition get_github_user_url :: "string \<Rightarrow> string" where
  "get_github_user_url username = GITHUB_API_BASE @ ''/users/'' @ username"

definition format_user :: "json \<Rightarrow> string result" where
  "format_user data = fstring
     [Inr ''\<newline>Username: '', fmt (py_get data ''login'' (JStr ''N/A'')),
      Inr ''\<newline>Name: '', fmt (py_get data ''name'' (JStr ''N/A'')),
      Inr ''\<newline>Bio: '', fmt (py_get data ''bio'' (JStr ''No bio available'')),
      Inr ''\<newline>Public Repos: '', fmt (py_get data ''public_repos'' (JInt 0)),
      Inr ''\<newline>Followers: '', fmt (py_get data ''followers'' (JInt 0)),
      Inr ''\<newline>Following: '', fmt (py_get data ''following'' (JInt 0)),
      Inr ''\<newline>Location: '', fmt (py_get data ''location'' (JStr ''N/A'')),
      Inr ''\<newline>Company: '', fmt (py_get data ''company'' (JStr ''N/A'')),
      Inr ''\<newline>Blog: '', fmt (py_get data ''blog'' (JStr ''N/A'')),
      Inr ''\<newline>Created: '', fmt (py_get data ''created_at'' (JStr ''N/A'')),
      Inr ''\<newline>'']"

definition get_github_user :: "config \<Rightarrow> upstream \<Rightarrow> string \<Rightarrow> outcome" where
  "get_github_user cfg up username =
     (let (reqs, data) = make_github_request cfg up (get_github_user_url username)
      in if \<not> py_truthy data
         then (reqs, Inr (''Unable to fetch user information for '' @ username))
         else (reqs, format_user data))"

text \<open>In the four tools with a limit, the \<open>limit\<close> of the URL is the value after
  \<^verbatim>\<open>limit = min(limit, cap)\<close>.\<close>

definition get_github_repos_url :: "string \<Rightarrow> int \<Rightarrow> string" where
  "get_github_repos_url username limit =
     GITHUB_API_BASE @ ''/users/'' @ username @ ''/repos?sort=updated&per_page='' @ str_int limit"

definition format_repo :: "json \<Rightarrow> string result" where
  "format_repo repo = fstring
     [Inr ''\<newline>Name: '', fmt (py_get repo ''name'' (JStr ''N/A'')),
      Inr ''\<newline>Description: '', fmt (py_get repo ''description'' (JStr ''No description'')),
      Inr ''\<newline>Language: '', fmt (py_get repo ''language'' (JStr ''N/A'')),
      Inr ''\<newline>Stars: '', fmt (py_get repo ''stargazers_count'' (JInt 0)),
      Inr ''\<newline>Forks: '', fmt (py_get repo ''forks_count'' (JInt 0)),
      Inr ''\<newline>Updated: '', fmt (py_get repo ''updated_at'' (JStr ''N/A'')),
      Inr ''\<newline>URL: '', fmt (py_get repo ''html_url'' (JStr ''N/A'')),
      Inr ''\<newline>'']"

text \<open>The loop \<^verbatim>\<open>for repo in data\<close>, which fills the list \<^verbatim>\<open>repos\<close>.\<close>

definition repos_entries :: "json \<Rightarrow> string list result" where
  "repos_entries data = and_then (py_iter data) (\<lambda>items. collect format_repo items)"

definition get_github_repos :: "config \<Rightarrow> upstream \<Rightarrow> string \<Rightarrow> int \<Rightarrow> outcome" where
  "get_github_repos cfg up username limit =
     (let limit = min limit 50;
          (reqs, data) = make_github_request cfg up (get_github_repos_url username limit)
      in if \<not> py_truthy data
         then (reqs, Inr (''Unable to fetch repositories for '' @ username))
         else (reqs, and_then (repos_entries data) (\<lambda>repos. Inr (py_join separator repos))))"

definition get_github_repo_info_url :: "string \<Rightarrow> string \<Rightarrow> string" where
  "get_github_repo_info_url owner repo = GITHUB_API_BASE @ ''/repos/'' @ owner @ ''/'' @ repo"

text \<open>The slot
  \<^verbatim>\<open>{data.get('license', {}).get('name', 'N/A') if data.get('license') else 'N/A'}\<close>.\<close>

definition license_name :: "json \<Rightarrow> json result" where
  "license_name data =
     and_then (py_get data ''license'' JNull) (\<lambda>present.
       if py_truthy present
       then and_then (py_get data ''license'' (JObj [])) (\<lambda>license.
            py_get license ''name'' (JStr ''N/A''))
       else Inr (JStr ''N/A''))"

definition format_repo_info :: "json \<Rightarrow> string result" where
  "format_repo_info data = fstring
     [Inr ''\<newline>Repository: '', fmt (py_get data ''full_name'' (JStr ''N/A'')),
      Inr ''\<newline>Description: '', fmt (py_get data ''description'' (JStr ''No description'')),
      Inr ''\<newline>Language: '', fmt (py_get data ''language'' (JStr ''N/A'')),
      Inr ''\<newline>Stars: '', fmt (py_get data ''stargazers_count'' (JInt 0)),
      Inr ''\<newline>Forks: '', fmt (py_get data ''forks_count'' (JInt 0)),
      Inr ''\<newline>Watchers: '', fmt (py_get data ''watchers_count'' (JInt 0)),
      Inr ''\<newline>Open Issues: '', fmt (py_get data ''open_issues_count'' (JInt 0)),
      Inr ''\<newline>Size: '', fmt (py_get data ''size'' (JInt 0)), Inr '' KB'',
      Inr ''\<newline>Default Branch: '', fmt (py_get data ''default_branch'' (JStr ''N/A'')),
      Inr ''\<newline>Created: '', fmt (py_get data ''created_at'' (JStr ''N/A'')),
      Inr ''\<newline>Updated: '', fmt (py_get data ''updated_at'' (JStr ''N/A'')),
      Inr ''\<newline>License: '', fmt (license_name data),
      Inr ''\<newline>URL: '', fmt (py_get data ''html_url'' (JStr ''N/A'')),
      Inr ''\<newline>Clone URL: '', fmt (py_get data ''clone_url'' (JStr ''N/A'')),
      Inr ''\<newline>'']"

definition get_github_repo_info :: "config \<Rightarrow> upstream \<Rightarrow> string \<Rightarrow> string \<Rightarrow> outcome" where
  "get_github_repo_info cfg up owner repo =
     (let (reqs, data) = make_github_request cfg up (get_github_repo_info_url owner repo)
      in if \<not> py_truthy data
         then (reqs, Inr (''Unable to fetch repository information for '' @ owner @ ''/'' @ repo))
         else (reqs, format_repo_info data))"

definition search_github_repos_url :: "string \<Rightarrow> int \<Rightarrow> string" where
  "search_github_repos_url query limit =
     GITHUB_API_BASE @ ''/search/repositories?q='' @ query
       @ ''&sort=stars&order=desc&per_page='' @ str_int limit"

definition format_search_repo :: "json \<Rightarrow> string result" where
  "format_search_repo repo = fstring
     [Inr ''\<newline>Name: '', fmt (py_get repo ''full_name'' (JStr ''N/A'')),
      Inr ''\<newline>Description: '', fmt (py_get repo ''description'' (JStr ''No description'')),
      Inr ''\<newline>Language: '', fmt (py_get repo ''language'' (JStr ''N/A'')),
      Inr ''\<newline>Stars: '', fmt (py_get repo ''stargazers_count'' (JInt 0)),
      Inr ''\<newline>Forks: '', fmt (py_get repo ''forks_count'' (JInt 0)),
      Inr ''\<newline>URL: '', fmt (py_get repo ''html_url'' (JStr ''N/A'')),
      Inr ''\<newline>'']"

text \<open>The loop \<^verbatim>\<open>for repo in data['items']\<close>, which fills the list \<^verbatim>\<open>repos\<close>.\<close>

definition search_entries :: "json \<Rightarrow> string list result" where
  "search_entries data =
     and_then (py_getitem data ''items'') (\<lambda>found.
     and_then (py_iter found) (\<lambda>items. collect format_search_repo items))"

definition search_github_repos :: "config \<Rightarrow> upstream \<Rightarrow> string \<Rightarrow> int \<Rightarrow> outcome" where
  "search_github_repos cfg up query limit =
     (let limit = min limit 30;
          (reqs, data) = make_github_request cfg up (search_github_repos_url query limit)
      in if \<not> py_truthy data
         then (reqs, Inr (''Unable to search repositories for query: '' @ query))
         else case py_contains ''items'' data of
           Inl e \<Rightarrow> (reqs, Inl e)
         | Inr present \<Rightarrow>
             if \<not> present
             then (reqs, Inr (''Unable to search repositories for query: '' @ query))
             else (reqs, and_then (search_entries data) (\<lambda>repos.
                           Inr (py_join separator repos))))"

definition get_github_issues_url :: "string \<Rightarrow> string \<Rightarrow> string \<Rightarrow> int \<Rightarrow> string" where
  "get_github_issues_url owner repo state limit =
     GITHUB_API_BASE @ ''/repos/'' @ owner @ ''/'' @ repo
       @ ''/issues?state='' @ state @ ''&per_page='' @ str_int limit"

text \<open>\<^verbatim>\<open>", ".join([label['name'] for label in issue.get('labels', [])])\<close>\<close>

definition issue_labels :: "json \<Rightarrow> string result" where
  "issue_labels issue =
     and_then (py_get issue ''labels'' (JList [])) (\<lambda>ls.
     and_then (py_iter ls) (\<lambda>items.
     and_then (collect (\<lambda>label. py_getitem label ''name'') items) (\<lambda>names.
     py_join_values '', '' names)))"

text \<open>\<^verbatim>\<open>issue.get('user', {}).get('login', 'N/A')\<close>\<close>

definition issue_author :: "json \<Rightarrow> json result" where
  "issue_author issue =
     and_then (py_get issue ''user'' (JObj [])) (\<lambda>user.
     py_get user ''login'' (JStr ''N/A''))"

definition format_issue :: "json \<Rightarrow> string result" where
  "format_issue issue =
     and_then (issue_labels issue) (\<lambda>labels. fstring
       [Inr ''\<newline>#'', fmt (py_get issue ''number'' (JStr ''N/A'')),
        Inr '': '', fmt (py_get issue ''title'' (JStr ''No title'')),
        Inr ''\<newline>State: '', fmt (py_get issue ''state'' (JStr ''N/A'')),
        Inr ''\<newline>Author: '', fmt (issue_author issue),
        Inr ''\<newline>Labels: '', Inr (if labels \<noteq> [] then labels else ''None''),
        Inr ''\<newline>Created: '', fmt (py_get issue ''created_at'' (JStr ''N/A'')),
        Inr ''\<newline>URL: '', fmt (py_get issue ''html_url'' (JStr ''N/A'')),
        Inr ''\<newline>''])"

text \<open>The loop \<^verbatim>\<open>for issue in data\<close>, which fills the list \<^verbatim>\<open>issues\<close>.\<close>

definition issues_entries :: "json \<Rightarrow> string list result" where
  "issues_entries data = and_then (py_iter data) (\<lambda>items. collect format_issue items)"

definition get_github_issues ::
  "config \<Rightarrow> upstream \<Rightarrow> string \<Rightarrow> string \<Rightarrow> string \<Rightarrow> int \<Rightarrow> outcome" where
  "get_github_issues cfg up owner repo state limit =
     (let limit = min limit 30;
          state = (if state \<notin> set [''open'', ''closed'', ''all''] then ''open'' else state);
          (reqs, data) = make_github_request cfg up (get_github_issues_url owner repo state limit)
      in if \<not> py_truthy data
         then (reqs, Inr (''Unable to fetch issues for '' @ owner @ ''/'' @ repo))
         else (reqs, and_then (issues_entries data) (\<lambda>issues. Inr (py_join separator issues))))"

definition get_github_commits_url :: "string \<Rightarrow> string \<Rightarrow> int \<Rightarrow> string" where
  "get_github_commits_url owner repo limit =
     GITHUB_API_BASE @ ''/repos/'' @ owner @ ''/'' @ repo @ ''/commits?per_page='' @ str_int limit"

text \<open>The two slots of the line \<^verbatim>\<open>Message:\<close>, the message cut to 100 characters and the
  marker that follows it:
  \<^verbatim>\<open>{commit.get('commit', {}).get('message', 'No message')[:100]}\<close> and
  \<^verbatim>\<open>{'...' if len(commit.get('commit', {}).get('message', '')) > 100 else ''}\<close>.\<close>

definition commit_message :: "json \<Rightarrow> json result" where
  "commit_message commit =
     and_then (py_get commit ''commit'' (JObj [])) (\<lambda>c.
     and_then (py_get c ''message'' (JStr ''No message'')) (\<lambda>message.
     py_slice 100 message))"

definition commit_ellipsis :: "json \<Rightarrow> json result" where
  "commit_ellipsis commit =
     and_then (py_get commit ''commit'' (JObj [])) (\<lambda>c.
     and_then (py_get c ''message'' (JStr [])) (\<lambda>message.
     and_then (py_len message) (\<lambda>n.
     Inr (JStr (if n > 100 then ''...'' else [])))))"

text \<open>\<^verbatim>\<open>commit.get('commit', {}).get('author', {}).get(k, 'N/A')\<close>\<close>

definition commit_author :: "string \<Rightarrow> json \<Rightarrow> json result" where
  "commit_author k commit =
     and_then (py_get commit ''commit'' (JObj [])) (\<lambda>c.
     and_then (py_get c ''author'' (JObj [])) (\<lambda>author.
     py_get author k (JStr ''N/A'')))"

text \<open>\<^verbatim>\<open>commit.get('sha', 'N/A')[:8]\<close>\<close>

definition commit_sha :: "json \<Rightarrow> json result" where
  "commit_sha commit = and_then (py_get commit ''sha'' (JStr ''N/A'')) (py_slice 8)"

definition format_commit :: "json \<Rightarrow> string result" where
  "format_commit commit = fstring
     [Inr ''\<newline>SHA: '', fmt (commit_sha commit),
      Inr ''\<newline>Message: '', fmt (commit_message commit), fmt (commit_ellipsis commit),
      Inr ''\<newline>Author: '', fmt (commit_author ''name'' commit),
      Inr ''\<newline>Date: '', fmt (commit_author ''date'' commit),
      Inr ''\<newline>URL: '', fmt (py_get commit ''html_url'' (JStr ''N/A'')),
      Inr ''\<newline>'']"

text \<open>The loop \<^verbatim>\<open>for commit in data\<close>, which fills the list \<^verbatim>\<open>commits\<close>.\<close>

definition commits_entries :: "json \<Rightarrow> string list result" where
  "commits_entries data = and_then (py_iter data) (\<lambda>items. collect format_commit items)"

definition get_github_commits :: "config \<Rightarrow> upstream \<Rightarrow> string \<Rightarrow> string \<Rightarrow> int \<Rightarrow> outcome" where
  "get_github_commits cfg up owner repo limit =
     (let limit = min limit 20;
          (reqs, data) = make_github_request cfg up (get_github_commits_url owner repo limit)
      in if \<not> py_truthy data
         then (reqs, Inr (''Unable to fetch commits for '' @ owner @ ''/'' @ repo))
         else (reqs, and_then (commits_entries data) (\<lambda>commits.
                       Inr (py_join separator commits))))"

section \<open>Indian Rail tools\<close>

text \<open>
  Two of the tools call \<^verbatim>\<open>str.upper\<close> on their input. The method is Python's and works
  from the case table of Unicode: beyond the letters a to z it changes accented letters,
  turns the sharp s into two letters and sends some letters to code points above 255.
  That table is no part of this repository, so the two tools take the function as their
  first argument \<open>upper\<close>, and everything proved of them holds for every function in
  its place.
\<close>

text \<open>\<^verbatim>\<open>v == 200\<close>: an integer 200 or the float 200.0 (\<^verbatim>\<open>True == 200\<close> is false).\<close>

fun equals_200 :: "json \<Rightarrow> bool" where
  "equals_200 (JInt i) = (i = 200)"
| "equals_200 (JFloat f) = (float_repr f = ''200.0'')"
| "equals_200 _ = False"

text \<open>The test \<^verbatim>\<open>data.get('ResponseCode') == 200 and data.get(k)\<close> of the three tools;
  \<^verbatim>\<open>and\<close> evaluates its second operand only when the first is true.\<close>

definition response_has :: "string \<Rightarrow> json \<Rightarrow> bool result" where
  "response_has k data =
     and_then (py_get data ''ResponseCode'' JNull) (\<lambda>code.
       if equals_200 code
       then and_then (py_get data k JNull) (\<lambda>v. Inr (py_truthy v))
       else Inr False)"

definition station_name_to_code_url :: "string \<Rightarrow> string \<Rightarrow> string" where
  "station_name_to_code_url key station_name =
     INDIAN_RAIL_BASE_URL @ ''/StationNameToCode/apikey/'' @ key @ ''/StationName/'' @ station_name"

text \<open>The three \<^verbatim>\<open>result +=\<close> of one station.\<close>

definition station_lines :: "json \<Rightarrow> string result" where
  "station_lines station = fstring
     [Inr ''Name: '', fmt (py_get station ''StationName'' (JStr ''N/A'')), Inr ''\<newline>'',
      Inr ''Code: '', fmt (py_get station ''StationCode'' (JStr ''N/A'')), Inr ''\<newline>'',
      Inr ''State: '', fmt (py_get station ''StateName'' (JStr ''N/A'')),
      Inr ''\<newline>---\<newline>'']"

definition no_stations_found :: "string \<Rightarrow> string" where
  "no_stations_found station_name = ''No stations found for '' @ [CHR 0x27] @ station_name @ [CHR 0x27]"

definition station_name_to_code_text :: "string \<Rightarrow> json \<Rightarrow> string result" where
  "station_name_to_code_text station_name data =
     and_then (py_contains ''error'' data) (\<lambda>failed.
       if failed
       then fstring [Inr ''Error fetching station code: '', fmt (py_getitem data ''error'')]
       else and_then (response_has ''Station'' data) (\<lambda>found.
         if found
         then and_then (py_getitem data ''Station'') (\<lambda>stations.
           if is_list stations \<and> py_truthy stations
           then and_then (py_slice 5 stations) (\<lambda>first.
                and_then (py_iter first) (\<lambda>ss.
                append_each station_lines ''Station codes found:\<newline>'' ss))
           else Inr (no_stations_found station_name))
         else Inr (no_stations_found station_name)))"

definition station_name_to_code ::
  "(string \<Rightarrow> string) \<Rightarrow> config \<Rightarrow> upstream \<Rightarrow> string \<Rightarrow> outcome" where
  "station_name_to_code upper cfg up station_name =
     (case INDIAN_RAIL_API_KEY cfg of
        None \<Rightarrow> ([], Inr ''Indian Rail API key not configured'')
      | Some key \<Rightarrow>
          if key = [] then ([], Inr ''Indian Rail API key not configured'')
          else
            (let station_name = upper station_name;
                 (reqs, data) = fetch_data up (station_name_to_code_url key station_name)
             in (reqs, station_name_to_code_text station_name data)))"

definition get_train_schedule_url :: "string \<Rightarrow> string \<Rightarrow> string" where
  "get_train_schedule_url key train_number =
     INDIAN_RAIL_BASE_URL @ ''/TrainSchedule/apikey/'' @ key @ ''/TrainNumber/'' @ train_number"

text \<open>The three \<^verbatim>\<open>train_info +=\<close> of one stop of the route.\<close>

definition stop_lines :: "json \<Rightarrow> string result" where
  "stop_lines station = fstring
     [Inr ''Station: '', fmt (py_get station ''StationName'' (JStr ''N/A'')),
      Inr '' ('', fmt (py_get station ''StationCode'' (JStr ''N/A'')), Inr '')\<newline>'',
      Inr ''Arrival: '', fmt (py_get station ''ArrivalTime'' (JStr ''N/A'')),
      Inr '' | Departure: '', fmt (py_get station ''DepartureTime'' (JStr ''N/A'')),
      Inr ''\<newline>'',
      Inr ''Distance: '', fmt (py_get station ''DistanceFromSource'' (JStr ''N/A'')),
      Inr '' km\<newline>---\<newline>'']"

definition get_train_schedule_text :: "string \<Rightarrow> json \<Rightarrow> string result" where
  "get_train_schedule_text train_number data =
     and_then (py_contains ''error'' data) (\<lambda>failed.
       if failed
       then fstring [Inr ''Error fetching train schedule: '', fmt (py_getitem data ''error'')]
       else and_then (response_has ''Route'' data) (\<lambda>found.
         if found
         then and_then (fstring
                [Inr ''Train '', Inr train_number, Inr '' Schedule:\<newline>'',
                 Inr ''Train Name: '', fmt (py_get data ''TrainName'' (JStr ''N/A'')),
                 Inr ''\<newline>'',
                 Inr ''Train Number: '', fmt (py_get data ''TrainNumber'' (JStr ''N/A'')),
                 Inr ''\<newline>\<newline>'']) (\<lambda>train_info.
              and_then (py_getitem data ''Route'') (\<lambda>route.
                if is_list route
                then and_then (py_slice 10 route) (\<lambda>first.
                     and_then (py_iter first) (\<lambda>stops.
                     append_each stop_lines (train_info @ ''Schedule:\<newline>'') stops))
                else Inr train_info))
         else Inr (''No schedule found for train '' @ train_number)))"

definition get_train_schedule_indian_rail :: "config \<Rightarrow> upstream \<Rightarrow> string \<Rightarrow> outcome" where
  "get_train_schedule_indian_rail cfg up train_number =
     (case INDIAN_RAIL_API_KEY cfg of
        None \<Rightarrow> ([], Inr ''Indian Rail API key not configured'')
      | Some key \<Rightarrow>
          if key = [] then ([], Inr ''Indian Rail API key not configured'')
          else
            (let (reqs, data) = fetch_data up (get_train_schedule_url key train_number)
             in (reqs, get_train_schedule_text train_number data)))"

definition get_all_trains_on_station_url :: "string \<Rightarrow> string \<Rightarrow> string" where
  "get_all_trains_on_station_url key station_code =
     INDIAN_RAIL_BASE_URL @ ''/AllTrainOnStation/apikey/'' @ key @ ''/StationCode/'' @ station_code"

text \<open>The three \<^verbatim>\<open>result +=\<close> of one train.\<close>

definition train_lines :: "json \<Rightarrow> string result" where
  "train_lines train = fstring
     [Inr ''Train: '', fmt (py_get train ''TrainName'' (JStr ''N/A'')),
      Inr '' ('', fmt (py_get train ''TrainNumber'' (JStr ''N/A'')), Inr '')\<newline>'',
      Inr ''Arrival: '', fmt (py_get train ''ArrivalTime'' (JStr ''N/A'')),
      Inr '' | Departure: '', fmt (py_get train ''DepartureTime'' (JStr ''N/A'')),
      Inr ''\<newline>'',
      Inr ''Source: '', fmt (py_get train ''SourceStationName'' (JStr ''N/A'')),
      Inr '' | Destination: '', fmt (py_get train ''DestinationStationName'' (JStr ''N/A'')),
      Inr ''\<newline>---\<newline>'']"

definition get_all_trains_on_station_text :: "string \<Rightarrow> json \<Rightarrow> string result" where
  "get_all_trains_on_station_text station_code data =
     and_then (py_contains ''error'' data) (\<lambda>failed.
       if failed
       then fstring [Inr ''Error fetching trains for station: '', fmt (py_getitem data ''error'')]
       else and_then (response_has ''Trains'' data) (\<lambda>found.
         if found
         then and_then (py_getitem data ''Trains'') (\<lambda>trains.
           if py_truthy trains
           then and_then (py_slice 15 trains) (\<lambda>first.
                and_then (py_iter first) (\<lambda>ts.
                append_each train_lines (''Trains at station '' @ station_code @ '':\<newline>'') ts))
           else Inr (''No trains found for station '' @ station_code))
         else Inr (''No trains found for station '' @ station_code)))"

definition get_all_trains_on_station ::
  "(string \<Rightarrow> string) \<Rightarrow> config \<Rightarrow> upstream \<Rightarrow> string \<Rightarrow> outcome" where
  "get_all_trains_on_station upper cfg up station_code =
     (case INDIAN_RAIL_API_KEY cfg of
        None \<Rightarrow> ([], Inr ''Indian Rail API key not configured'')
      | Some key \<Rightarrow>
          if key = [] then ([], Inr ''Indian Rail API key not configured'')
          else
            (let station_code = upper station_code;
                 (reqs, data) = fetch_data up (get_all_trains_on_station_url key station_code)
             in (reqs, get_all_trains_on_station_text station_code data)))"

section \<open>Example inputs\<close>

text \<open>A configuration with no credential and one with both; an upstream that answers
  every request with the same body, and one where every request fails.\<close>

definition no_credentials :: config where
  "no_credentials = \<lparr>INDIAN_RAIL_API_KEY = None, GITHUB_TOKEN = None\<rparr>"

definition with_credentials :: config where
  "with_credentials = \<lparr>INDIAN_RAIL_API_KEY = Some ''KEY'', GITHUB_TOKEN = Some ''TOKEN''\<rparr>"

definition answering :: "json \<Rightarrow> upstream" where
  "answering body = (\<lambda>r. Inr body)"

definition failing :: "string \<Rightarrow> upstream" where
  "failing message = (\<lambda>r. Inl message)"

text \<open>An upstream list of two repositories, of two issues and of two commits, and a
  search result with two items.\<close>

definition two_repos :: json where
  "two_repos = JList [JObj [(''name'', JStr ''alpha'')], JObj [(''name'', JStr ''beta'')]]"

definition two_found :: json where
  "two_found = JObj [(''total_count'', JInt 2),
     (''items'', JList [JObj [(''full_name'', JStr ''o/alpha'')], JObj [(''full_name'', JStr ''o/beta'')]])]"

definition two_issues :: json where
  "two_issues = JList [JObj [(''number'', JInt 1)], JObj [(''number'', JInt 2)]]"

definition two_commits :: json where
  "two_commits = JList [JObj [(''sha'', JStr ''0123456789abcdef'')], JObj [(''sha'', JStr ''fedcba9876543210'')]]"

text \<open>An upstream that answers the points request of one location with the URL of its
  forecast, and where every other request fails.\<close>

definition points_only :: upstream where
  "points_only = (\<lambda>r.
     if url r = ''https://api.weather.gov/points/39.7456,-97.0892''
     then Inr (JObj [(''properties'',
            JObj [(''forecast'', JStr ''https://api.weather.gov/gridpoints/TOP/31,80/forecast'')])])
     else Inl ''timeout'')"

text \<open>A rail response with six stations.\<close>

definition six_stations :: "json list" where
  "six_stations =
     [JObj [(''StationCode'', JStr ''A'')], JObj [(''StationCode'', JStr ''B'')],
      JObj [(''StationCode'', JStr ''C'')], JObj [(''StationCode'', JStr ''D'')],
      JObj [(''StationCode'', JStr ''E'')], JObj [(''StationCode'', JStr ''F'')]]"

definition six_stations_response :: "(string \<times> json) list" where
  "six_stations_response = [(''ResponseCode'', JInt 200), (''Station'', JList six_stations)]"




text \<open>On ASCII text \<^verbatim>\<open>str.upper\<close> turns the letters a to z into A to Z and leaves every
  other character as it is. The examples pass this function to the rail tools and
  apply it to ASCII text only.\<close>

definition ascii_upper :: "string \<Rightarrow> string" where
  "ascii_upper s =
     map (\<lambda>c. let n = (of_char c :: nat) in if 97 \<le> n \<and> n \<le> 122 then char_of (n - 32) else c) s"

section \<open>What the spec asks of an optional field\<close>

text \<open>
  In the words of the spec, an optional field of an upstream record is rendered as its
  value when the record has the field, and as a literal placeholder when the field is
  absent. \<open>shown d k placeholder\<close> is that text for the field \<open>k\<close> of the record \<open>d\<close>; the
  renderers of the tools are compared with it below.
\<close>

definition shown :: "(string \<times> json) list \<Rightarrow> string \<Rightarrow> string \<Rightarrow> string" where
  "shown d k placeholder = (case map_of d k of None \<Rightarrow> placeholder | Some v \<Rightarrow> py_str v)"

section \<open>Basic facts\<close>

lemma and_then_Inl [simp]: "and_then (Inl e) f = Inl e"
  by (simp add: and_then_def)

lemma and_then_Inr [simp]: "and_then (Inr x) f = f x"
  by (simp add: and_then_def)

lemma and_then_eq_Inr:
  "and_then m f = Inr y \<longleftrightarrow> (\<exists>x. m = Inr x \<and> f x = Inr y)"
  by (cases m) simp_all

lemma fmt_Inl [simp]: "fmt (Inl e) = Inl e"
  by (simp add: fmt_def)

lemma fmt_Inr [simp]: "fmt (Inr v) = Inr (py_str v)"
  by (simp add: fmt_def)

lemma collect_length: "collect f xs = Inr ys \<Longrightarrow> length ys = length xs"
proof (induction xs arbitrary: ys)
  case Nil
  then show ?case by simp
next
  case (Cons x xs)
  from Cons.prems obtain y where y: "f x = Inr y"
    by (cases "f x") simp_all
  with Cons.prems obtain zs where zs: "collect f xs = Inr zs" and ys: "ys = y # zs"
    by (cases "collect f xs") auto
  from Cons.IH [OF zs] ys show ?case by simp
qed

text \<open>A loop that appends to a text yields the text it started from, followed by the
  pieces of the items in order.\<close>

lemma append_each_collect:
  "append_each f result xs =
     (case collect f xs of Inl e \<Rightarrow> Inl e | Inr pieces \<Rightarrow> Inr (result @ concat pieces))"
proof (induction xs arbitrary: result)
  case Nil
  then show ?case by simp
next
  case (Cons x xs)
  show ?case
  proof (cases "f x")
    case (Inl e)
    then show ?thesis by simp
  next
    case (Inr s)
    then show ?thesis
      by (cases "collect f xs") (simp_all add: Cons.IH)
  qed
qed

section \<open>How many entries a list tool renders\<close>

text \<open>
  The four list tools put the clamped limit in the URL and then render whatever list
  comes back: none of them cuts the list. The helper facts say, for each tool, what its
  text is when the upstream answers with a list.
\<close>

lemma repos_text:
  assumes "up (github_request cfg (get_github_repos_url username (min limit 50))) = Inr (JList items)"
    and "snd (get_github_repos cfg up username limit) = Inr out"
  shows "if items = [] then out = ''Unable to fetch repositories for '' @ username
         else \<exists>repos. collect format_repo items = Inr repos
                \<and> out = py_join separator repos \<and> length repos = length items"
proof (cases "items = []")
  case True
  with assms show ?thesis
    by (simp add: get_github_repos_def make_github_request_def Let_def)
next
  case False
  with assms have "and_then (collect format_repo items) (\<lambda>repos. Inr (py_join separator repos))
      = Inr out"
    by (simp add: get_github_repos_def make_github_request_def Let_def repos_entries_def)
  then obtain repos where "collect format_repo items = Inr repos" "out = py_join separator repos"
    by (auto simp: and_then_eq_Inr)
  with False show ?thesis
    by (auto dest: collect_length)
qed

lemma search_text:
  assumes "up (github_request cfg (search_github_repos_url query (min limit 30))) = Inr (JObj d)"
    and "map_of d ''items'' = Some (JList items)"
    and "snd (search_github_repos cfg up query limit) = Inr out"
  shows "\<exists>repos. collect format_search_repo items = Inr repos
           \<and> out = py_join separator repos \<and> length repos = length items"
proof -
  from assms(2) have "d \<noteq> []"
    by auto
  with assms have "and_then (collect format_search_repo items)
      (\<lambda>repos. Inr (py_join separator repos)) = Inr out"
    by (simp add: search_github_repos_def make_github_request_def Let_def search_entries_def)
  then obtain repos where "collect format_search_repo items = Inr repos"
    "out = py_join separator repos"
    by (auto simp: and_then_eq_Inr)
  then show ?thesis
    by (auto dest: collect_length)
qed

lemma issues_text:
  assumes "up (github_request cfg (get_github_issues_url owner repo
      (if state \<in> {''open'', ''closed'', ''all''} then state else ''open'') (min limit 30)))
      = Inr (JList items)"
    and "snd (get_github_issues cfg up owner repo state limit) = Inr out"
  shows "if items = [] then out = ''Unable to fetch issues for '' @ owner @ ''/'' @ repo
         else \<exists>issues. collect format_issue items = Inr issues
                \<and> out = py_join separator issues \<and> length issues = length items"
proof (cases "items = []")
  case True
  with assms show ?thesis
    by (simp add: get_github_issues_def make_github_request_def Let_def split: if_splits)
next
  case False
  with assms have "and_then (collect format_issue items)
      (\<lambda>issues. Inr (py_join separator issues)) = Inr out"
    by (simp add: get_github_issues_def make_github_request_def Let_def issues_entries_def
        split: if_splits)
  then obtain issues where "collect format_issue items = Inr issues"
    "out = py_join separator issues"
    by (auto simp: and_then_eq_Inr)
  with False show ?thesis
    by (auto dest: collect_length)
qed

lemma commits_text:
  assumes "up (github_request cfg (get_github_commits_url owner repo (min limit 20)))
      = Inr (JList items)"
    and "snd (get_github_commits cfg up owner repo limit) = Inr out"
  shows "if items = [] then out = ''Unable to fetch commits for '' @ owner @ ''/'' @ repo
         else \<exists>commits. collect format_commit items = Inr commits
                \<and> out = py_join separator commits \<and> length commits = length items"
proof (cases "items = []")
  case True
  with assms show ?thesis
    by (simp add: get_github_commits_def make_github_request_def Let_def)
next
  case False
  with assms have "and_then (collect format_commit items)
      (\<lambda>commits. Inr (py_join separator commits)) = Inr out"
    by (simp add: get_github_commits_def make_github_request_def Let_def commits_entries_def)
  then obtain commits where "collect format_commit items = Inr commits"
    "out = py_join separator commits"
    by (auto simp: and_then_eq_Inr)
  with False show ?thesis
    by (auto dest: collect_length)
qed

text \<open>
  C1, as the claim states it, fails: with limit 1 and an upstream that answers with two
  items, each of the four tools renders two entries, more than \<open>min 1 cap = 1\<close>.
\<close>

theorem rendered_entries_exceed_limit:
  "snd (get_github_repos no_credentials (answering two_repos) ''octocat'' 1)
     = Inr (py_join separator
        [''\<newline>Name: alpha\<newline>Description: No description\<newline>Language: N/A\<newline>Stars: 0\<newline>Forks: 0\<newline>Updated: N/A\<newline>URL: N/A\<newline>'',
         ''\<newline>Name: beta\<newline>Description: No description\<newline>Language: N/A\<newline>Stars: 0\<newline>Forks: 0\<newline>Updated: N/A\<newline>URL: N/A\<newline>''])
   \<and> snd (search_github_repos no_credentials (answering two_found) ''alpha'' 1)
     = Inr (py_join separator
        [''\<newline>Name: o/alpha\<newline>Description: No description\<newline>Language: N/A\<newline>Stars: 0\<newline>Forks: 0\<newline>URL: N/A\<newline>'',
         ''\<newline>Name: o/beta\<newline>Description: No description\<newline>Language: N/A\<newline>Stars: 0\<newline>Forks: 0\<newline>URL: N/A\<newline>''])
   \<and> snd (get_github_issues no_credentials (answering two_issues) ''o'' ''r'' ''open'' 1)
     = Inr (py_join separator
        [''\<newline>#1: No title\<newline>State: N/A\<newline>Author: N/A\<newline>Labels: None\<newline>Created: N/A\<newline>URL: N/A\<newline>'',
         ''\<newline>#2: No title\<newline>State: N/A\<newline>Author: N/A\<newline>Labels: None\<newline>Created: N/A\<newline>URL: N/A\<newline>''])
   \<and> snd (get_github_commits no_credentials (answering two_commits) ''o'' ''r'' 1)
     = Inr (py_join separator
        [''\<newline>SHA: 01234567\<newline>Message: No message\<newline>Author: N/A\<newline>Date: N/A\<newline>URL: N/A\<newline>'',
         ''\<newline>SHA: fedcba98\<newline>Message: No message\<newline>Author: N/A\<newline>Date: N/A\<newline>URL: N/A\<newline>''])
   \<and> \<not> (2::int) \<le> min 1 50 \<and> \<not> (2::int) \<le> min 1 30 \<and> \<not> (2::int) \<le> min 1 20"
  by code_simp

text \<open>
  C1, amended. Whenever a list tool returns a text for an upstream list that is not
  empty, the text is the entries of all the items of that list, one entry per item,
  joined by the separator line: the number of entries equals the number of items the
  upstream returned, whatever the limit. (For an empty list the tool returns its
  \<^verbatim>\<open>Unable to fetch\<close> text; the search tool reads the list under the key \<^verbatim>\<open>items\<close> and
  renders nothing for an empty one.) The limit bounds only \<^verbatim>\<open>per_page\<close> in the request.
\<close>

theorem rendered_entries_match_upstream:
  "(up (github_request cfg (get_github_repos_url username (min limit 50))) = Inr (JList items)
      \<and> snd (get_github_repos cfg up username limit) = Inr out
    \<longrightarrow> (if items = [] then out = ''Unable to fetch repositories for '' @ username
         else \<exists>repos. collect format_repo items = Inr repos
                \<and> out = py_join separator repos \<and> length repos = length items))
   \<and> (up (github_request cfg (search_github_repos_url query (min limit 30))) = Inr (JObj d)
      \<and> map_of d ''items'' = Some (JList items)
      \<and> snd (search_github_repos cfg up query limit) = Inr out
    \<longrightarrow> (\<exists>repos. collect format_search_repo items = Inr repos
                \<and> out = py_join separator repos \<and> length repos = length items))
   \<and> (up (github_request cfg (get_github_issues_url owner repo
           (if state \<in> {''open'', ''closed'', ''all''} then state else ''open'') (min limit 30)))
        = Inr (JList items)
      \<and> snd (get_github_issues cfg up owner repo state limit) = Inr out
    \<longrightarrow> (if items = [] then out = ''Unable to fetch issues for '' @ owner @ ''/'' @ repo
         else \<exists>issues. collect format_issue items = Inr issues
                \<and> out = py_join separator issues \<and> length issues = length items))
   \<and> (up (github_request cfg (get_github_commits_url owner repo (min limit 20)))
        = Inr (JList items)
      \<and> snd (get_github_commits cfg up owner repo limit) = Inr out
    \<longrightarrow> (if items = [] then out = ''Unable to fetch commits for '' @ owner @ ''/'' @ repo
         else \<exists>commits. collect format_commit items = Inr commits
                \<and> out = py_join separator commits \<and> length commits = length items))"
  using repos_text [of up cfg username limit items out]
    search_text [of up cfg query limit d items out]
    issues_text [of up cfg owner repo state limit items out]
    commits_text [of up cfg owner repo limit items out]
  by blast

theorem rendered_entries_match_upstream_witness:
  "\<exists>commits.
      collect format_commit
        [JObj [(''sha'', JStr ''0123456789abcdef'')], JObj [(''sha'', JStr ''fedcba9876543210'')]]
        = Inr commits
    \<and> ''\<newline>SHA: 01234567\<newline>Message: No message\<newline>Author: N/A\<newline>Date: N/A\<newline>URL: N/A\<newline>\<newline>---\<newline>\<newline>SHA: fedcba98\<newline>Message: No message\<newline>Author: N/A\<newline>Date: N/A\<newline>URL: N/A\<newline>''
        = py_join separator commits
    \<and> length commits = 2"
proof -
  have answer: "answering two_commits (github_request no_credentials
      (get_github_commits_url ''o'' ''r'' (min 1 20)))
      = Inr (JList [JObj [(''sha'', JStr ''0123456789abcdef'')],
                    JObj [(''sha'', JStr ''fedcba9876543210'')]])"
    by (simp add: answering_def two_commits_def)
  have shown: "snd (get_github_commits no_credentials (answering two_commits) ''o'' ''r'' 1)
      = Inr ''\<newline>SHA: 01234567\<newline>Message: No message\<newline>Author: N/A\<newline>Date: N/A\<newline>URL: N/A\<newline>\<newline>---\<newline>\<newline>SHA: fedcba98\<newline>Message: No message\<newline>Author: N/A\<newline>Date: N/A\<newline>URL: N/A\<newline>''"
    by code_simp
  have "if [JObj [(''sha'', JStr ''0123456789abcdef'')],
            JObj [(''sha'', JStr ''fedcba9876543210'')]] = []
        then ''\<newline>SHA: 01234567\<newline>Message: No message\<newline>Author: N/A\<newline>Date: N/A\<newline>URL: N/A\<newline>\<newline>---\<newline>\<newline>SHA: fedcba98\<newline>Message: No message\<newline>Author: N/A\<newline>Date: N/A\<newline>URL: N/A\<newline>''
          = ''Unable to fetch commits for '' @ ''o'' @ ''/'' @ ''r''
        else \<exists>commits.
          collect format_commit
            [JObj [(''sha'', JStr ''0123456789abcdef'')],
             JObj [(''sha'', JStr ''fedcba9876543210'')]] = Inr commits
          \<and> ''\<newline>SHA: 01234567\<newline>Message: No message\<newline>Author: N/A\<newline>Date: N/A\<newline>URL: N/A\<newline>\<newline>---\<newline>\<newline>SHA: fedcba98\<newline>Message: No message\<newline>Author: N/A\<newline>Date: N/A\<newline>URL: N/A\<newline>''
            = py_join separator commits
          \<and> length commits = length
            [JObj [(''sha'', JStr ''0123456789abcdef'')],
             JObj [(''sha'', JStr ''fedcba9876543210'')]]"
    using answer shown
      rendered_entries_match_upstream [where up = "answering two_commits"
        and cfg = no_credentials and owner = "''o''" and repo = "''r''" and limit = 1
        and items = "[JObj [(''sha'', JStr ''0123456789abcdef'')],
                      JObj [(''sha'', JStr ''fedcba9876543210'')]]"
        and out = "''\<newline>SHA: 01234567\<newline>Message: No message\<newline>Author: N/A\<newline>Date: N/A\<newline>URL: N/A\<newline>\<newline>---\<newline>\<newline>SHA: fedcba98\<newline>Message: No message\<newline>Author: N/A\<newline>Date: N/A\<newline>URL: N/A\<newline>''"]
    by blast
  then show ?thesis
    by (simp add: numeral_2_eq_2)
qed

section \<open>Exceptions that leave a tool\<close>

text \<open>
  C2 says that no exception leaves a tool, whatever the upstream answers, objects
  without the expected keys included. The GitHub and rail tools read every key with
  \<^verbatim>\<open>.get\<close> and a default, but \<^verbatim>\<open>get_forecast\<close> and \<^verbatim>\<open>format_alert\<close> subscript: when the
  points response is an object without \<^verbatim>\<open>properties\<close>, \<^verbatim>\<open>get_forecast\<close> ends in a KeyError,
  and so does \<^verbatim>\<open>get_alerts\<close> on a feature without \<^verbatim>\<open>properties\<close>.
\<close>

theorem missing_key_raises:
  "snd (get_forecast (answering (JObj [(''id'', JStr ''x'')])) (PyFloat ''39.7456'') (PyFloat ''-97.0892''))
     = Inl (KeyError ''properties'')
   \<and> snd (get_alerts (answering (JObj [(''features'', JList [JObj [(''id'', JStr ''x'')]])])) ''CA'')
     = Inl (KeyError ''properties'')"
  by code_simp

section \<open>Letter case of the inputs\<close>

text \<open>
  C3, as the claim states it, fails for \<^verbatim>\<open>get_alerts\<close>: the state goes into the URL as
  it is given, so \<^verbatim>\<open>ca\<close> and its uppercase variant \<^verbatim>\<open>CA\<close> are requested at different
  URLs.
\<close>

theorem get_alerts_keeps_letter_case:
  "ascii_upper ''ca'' = ''CA''
   \<and> map url (fst (get_alerts (failing ''timeout'') ''ca''))
       = [''https://api.weather.gov/alerts/active/area/ca'']
   \<and> map url (fst (get_alerts (failing ''timeout'') ''CA''))
       = [''https://api.weather.gov/alerts/active/area/CA'']
   \<and> fst (get_alerts (failing ''timeout'') ''ca'') \<noteq> fst (get_alerts (failing ''timeout'') ''CA'')"
  by code_simp

text \<open>
  C3, amended. The two rail tools that take a station name or a station code replace
  it by its \<^verbatim>\<open>upper()\<close> before anything else: with the credential configured, the one
  request has the uppercased input in its URL, and two inputs with the same uppercase
  form lead to the same request and the same result. An input and its uppercase variant
  are such a pair whenever uppercasing the variant again changes nothing. The tool
  \<^verbatim>\<open>get_alerts\<close> requests the URL that ends in its state exactly as it is given. All of
  this holds whatever function stands for \<^verbatim>\<open>str.upper\<close>.
\<close>

theorem station_input_uppercased:
  "(upper s = upper t \<longrightarrow>
      station_name_to_code upper cfg up s = station_name_to_code upper cfg up t
      \<and> get_all_trains_on_station upper cfg up s = get_all_trains_on_station upper cfg up t)
   \<and> (upper (upper s) = upper s \<longrightarrow>
      station_name_to_code upper cfg up (upper s) = station_name_to_code upper cfg up s
      \<and> get_all_trains_on_station upper cfg up (upper s)
          = get_all_trains_on_station upper cfg up s)
   \<and> (INDIAN_RAIL_API_KEY cfg = Some key \<and> key \<noteq> [] \<longrightarrow>
      map url (fst (station_name_to_code upper cfg up s))
        = [INDIAN_RAIL_BASE_URL @ ''/StationNameToCode/apikey/'' @ key
             @ ''/StationName/'' @ upper s]
      \<and> map url (fst (get_all_trains_on_station upper cfg up s))
        = [INDIAN_RAIL_BASE_URL @ ''/AllTrainOnStation/apikey/'' @ key
             @ ''/StationCode/'' @ upper s])
   \<and> map url (fst (get_alerts up state)) = [NWS_API_BASE @ ''/alerts/active/area/'' @ state]"
proof -
  have urls: "map url (fst (station_name_to_code upper cfg up s))
        = [INDIAN_RAIL_BASE_URL @ ''/StationNameToCode/apikey/'' @ key
             @ ''/StationName/'' @ upper s]
      \<and> map url (fst (get_all_trains_on_station upper cfg up s))
        = [INDIAN_RAIL_BASE_URL @ ''/AllTrainOnStation/apikey/'' @ key
             @ ''/StationCode/'' @ upper s]"
    if "INDIAN_RAIL_API_KEY cfg = Some key" "key \<noteq> []"
    using that
    by (simp add: station_name_to_code_def get_all_trains_on_station_def fetch_data_def
        fetch_request_def Let_def station_name_to_code_url_def
        get_all_trains_on_station_url_def split: option.split)
  have same: "station_name_to_code upper cfg up a = station_name_to_code upper cfg up b
      \<and> get_all_trains_on_station upper cfg up a = get_all_trains_on_station upper cfg up b"
    if "upper a = upper b" for a b
    unfolding station_name_to_code_def get_all_trains_on_station_def that
    by simp
  have alerts: "map url (fst (get_alerts up state))
      = [NWS_API_BASE @ ''/alerts/active/area/'' @ state]"
    by (simp add: get_alerts_def get_alerts_url_def nws_request_def)
  from same [of s t] same [of "upper s" s] urls alerts show ?thesis
    by blast
qed

theorem station_input_uppercased_witness:
  "ascii_upper ''delhi'' = ascii_upper ''DELHI''
   \<and> station_name_to_code ascii_upper with_credentials (failing ''timeout'') ''delhi''
       = station_name_to_code ascii_upper with_credentials (failing ''timeout'') ''DELHI''
   \<and> map url (fst (station_name_to_code ascii_upper with_credentials (failing ''timeout'') ''delhi''))
       = [''https://indianrailapi.com/api/v2/StationNameToCode/apikey/KEY/StationName/DELHI'']
   \<and> map url (fst (get_all_trains_on_station ascii_upper with_credentials (failing ''timeout'')
         ''delhi''))
       = [''https://indianrailapi.com/api/v2/AllTrainOnStation/apikey/KEY/StationCode/DELHI'']
   \<and> map url (fst (get_alerts (failing ''timeout'') ''ca''))
       = [''https://api.weather.gov/alerts/active/area/ca'']"
proof -
  have same: "ascii_upper ''delhi'' = ascii_upper ''DELHI''"
    by code_simp
  have upper: "ascii_upper ''delhi'' = ''DELHI''"
    by code_simp
  have key: "INDIAN_RAIL_API_KEY with_credentials = Some ''KEY''" "''KEY'' \<noteq> []"
    by (simp_all add: with_credentials_def)
  note at_delhi = station_input_uppercased [where upper = ascii_upper and s = "''delhi''"
      and t = "''DELHI''" and cfg = with_credentials and up = "failing ''timeout''"
      and key = "''KEY''" and state = "''ca''"]
  from at_delhi same
  have equal: "station_name_to_code ascii_upper with_credentials (failing ''timeout'') ''delhi''
      = station_name_to_code ascii_upper with_credentials (failing ''timeout'') ''DELHI''"
    by blast
  from at_delhi key
  have urls: "map url (fst (station_name_to_code ascii_upper with_credentials (failing ''timeout'')
          ''delhi''))
        = [INDIAN_RAIL_BASE_URL @ ''/StationNameToCode/apikey/'' @ ''KEY''
             @ ''/StationName/'' @ ascii_upper ''delhi'']"
    "map url (fst (get_all_trains_on_station ascii_upper with_credentials (failing ''timeout'')
          ''delhi''))
        = [INDIAN_RAIL_BASE_URL @ ''/AllTrainOnStation/apikey/'' @ ''KEY''
             @ ''/StationCode/'' @ ascii_upper ''delhi'']"
    by blast+
  from at_delhi
  have alerts: "map url (fst (get_alerts (failing ''timeout'') ''ca''))
      = [NWS_API_BASE @ ''/alerts/active/area/'' @ ''ca'']"
    by blast
  from same equal urls alerts show ?thesis
    by (simp add: upper INDIAN_RAIL_BASE_URL_def NWS_API_BASE_def)
qed

section \<open>The absent-data value of the upstream client\<close>

text \<open>
  C4, as the claim states it, fails for the rail tools: what they return on the value
  \<^verbatim>\<open>{"error": ...}\<close> of \<^verbatim>\<open>fetch_data\<close> is not a fixed text, it ends in the message of the
  failure. Two failures give two texts.
\<close>

theorem rail_failure_text_not_fixed:
  "snd (fetch_data (failing ''timeout'')
         ''https://indianrailapi.com/api/v2/StationNameToCode/apikey/KEY/StationName/DELHI'')
     = JObj [(''error'', JStr ''timeout'')]
   \<and> snd (station_name_to_code ascii_upper with_credentials (failing ''timeout'') ''delhi'')
     = Inr ''Error fetching station code: timeout''
   \<and> snd (station_name_to_code ascii_upper with_credentials (failing ''refused'') ''delhi'')
     = Inr ''Error fetching station code: refused''
   \<and> snd (station_name_to_code ascii_upper with_credentials (failing ''timeout'') ''delhi'')
     \<noteq> snd (station_name_to_code ascii_upper with_credentials (failing ''refused'') ''delhi'')"
  by code_simp

lemma weather_absent:
  "(snd (make_nws_request up (JStr (get_alerts_url state))) = JNull
      \<longrightarrow> snd (get_alerts up state) = Inr ''Unable to fetch alerts or no alerts found.'')
   \<and> (snd (make_nws_request up (JStr (get_forecast_url latitude longitude))) = JNull
      \<longrightarrow> snd (get_forecast up latitude longitude)
            = Inr ''Unable to fetch forecast data for this location.'')"
  by (simp add: get_alerts_def get_alerts_text_def get_forecast_def split: prod.split)

lemma forecast_absent:
  assumes "snd (make_nws_request up (JStr (get_forecast_url latitude longitude))) = JObj d"
    and "map_of d ''properties'' = Some (JObj p)"
    and "map_of p ''forecast'' = Some u"
    and "snd (make_nws_request up u) = JNull"
  shows "snd (get_forecast up latitude longitude) = Inr ''Unable to fetch detailed forecast.''"
proof -
  from assms(2) have "d \<noteq> []"
    by auto
  with assms show ?thesis
    by (auto simp: get_forecast_def split: prod.split)
qed

lemma github_absent:
  "(snd (make_github_request cfg up (get_github_user_url username)) = JNull
      \<longrightarrow> snd (get_github_user cfg up username)
            = Inr (''Unable to fetch user information for '' @ username))
   \<and> (snd (make_github_request cfg up (get_github_repos_url username (min limit 50))) = JNull
      \<longrightarrow> snd (get_github_repos cfg up username limit)
            = Inr (''Unable to fetch repositories for '' @ username))
   \<and> (snd (make_github_request cfg up (get_github_repo_info_url owner repo)) = JNull
      \<longrightarrow> snd (get_github_repo_info cfg up owner repo)
            = Inr (''Unable to fetch repository information for '' @ owner @ ''/'' @ repo))
   \<and> (snd (make_github_request cfg up (search_github_repos_url query (min limit 30))) = JNull
      \<longrightarrow> snd (search_github_repos cfg up query limit)
            = Inr (''Unable to search repositories for query: '' @ query))
   \<and> (snd (make_github_request cfg up (get_github_issues_url owner repo
           (if state \<in> {''open'', ''closed'', ''all''} then state else ''open'') (min limit 30)))
        = JNull
      \<longrightarrow> snd (get_github_issues cfg up owner repo state limit)
            = Inr (''Unable to fetch issues for '' @ owner @ ''/'' @ repo))
   \<and> (snd (make_github_request cfg up (get_github_commits_url owner repo (min limit 20))) = JNull
      \<longrightarrow> snd (get_github_commits cfg up owner repo limit)
            = Inr (''Unable to fetch commits for '' @ owner @ ''/'' @ repo))"
  by (simp add: get_github_user_def get_github_repos_def get_github_repo_info_def
      search_github_repos_def get_github_issues_def get_github_commits_def Let_def
      split: prod.split)

lemma rail_absent:
  assumes "INDIAN_RAIL_API_KEY cfg = Some key" and "key \<noteq> []"
  shows "(snd (fetch_data up (station_name_to_code_url key (upper station_name)))
            = JObj [(''error'', JStr message)]
          \<longrightarrow> snd (station_name_to_code upper cfg up station_name)
                = Inr (''Error fetching station code: '' @ message))
       \<and> (snd (fetch_data up (get_train_schedule_url key train_number))
            = JObj [(''error'', JStr message)]
          \<longrightarrow> snd (get_train_schedule_indian_rail cfg up train_number)
                = Inr (''Error fetching train schedule: '' @ message))
       \<and> (snd (fetch_data up (get_all_trains_on_station_url key (upper station_code)))
            = JObj [(''error'', JStr message)]
          \<longrightarrow> snd (get_all_trains_on_station upper cfg up station_code)
                = Inr (''Error fetching trains for station: '' @ message))"
  using assms
  by (simp add: station_name_to_code_def station_name_to_code_text_def
      get_train_schedule_indian_rail_def get_train_schedule_text_def
      get_all_trains_on_station_def get_all_trains_on_station_text_def Let_def
      split: prod.split)

text \<open>
  C4, amended. When the upstream client returns its absent-data value to a tool
  (\<^verbatim>\<open>None\<close> from \<^verbatim>\<open>make_nws_request\<close> and \<^verbatim>\<open>make_github_request\<close>, the value
  \<^verbatim>\<open>{"error": message}\<close> from \<^verbatim>\<open>fetch_data\<close>), the tool raises nothing and returns its
  failure text: the fixed \<^verbatim>\<open>Unable to ...\<close> text for the weather tools, the same followed
  by the requested user, repository or query for the GitHub tools, and
  \<^verbatim>\<open>Error fetching ...: \<close> followed by the message for the rail tools.
\<close>

theorem absent_data_gives_failure_text:
  "(snd (make_nws_request up (JStr (get_alerts_url state))) = JNull
      \<longrightarrow> snd (get_alerts up state) = Inr ''Unable to fetch alerts or no alerts found.'')
   \<and> (snd (make_nws_request up (JStr (get_forecast_url latitude longitude))) = JNull
      \<longrightarrow> snd (get_forecast up latitude longitude)
            = Inr ''Unable to fetch forecast data for this location.'')
   \<and> (snd (make_nws_request up (JStr (get_forecast_url latitude longitude))) = JObj d
        \<and> map_of d ''properties'' = Some (JObj p) \<and> map_of p ''forecast'' = Some u
        \<and> snd (make_nws_request up u) = JNull
      \<longrightarrow> snd (get_forecast up latitude longitude) = Inr ''Unable to fetch detailed forecast.'')
   \<and> (snd (make_github_request cfg up (get_github_user_url username)) = JNull
      \<longrightarrow> snd (get_github_user cfg up username)
            = Inr (''Unable to fetch user information for '' @ username))
   \<and> (snd (make_github_request cfg up (get_github_repos_url username (min limit 50))) = JNull
      \<longrightarrow> snd (get_github_repos cfg up username limit)
            = Inr (''Unable to fetch repositories for '' @ username))
   \<and> (snd (make_github_request cfg up (get_github_repo_info_url owner repo)) = JNull
      \<longrightarrow> snd (get_github_repo_info cfg up owner repo)
            = Inr (''Unable to fetch repository information for '' @ owner @ ''/'' @ repo))
   \<and> (snd (make_github_request cfg up (search_github_repos_url query (min limit 30))) = JNull
      \<longrightarrow> snd (search_github_repos cfg up query limit)
            = Inr (''Unable to search repositories for query: '' @ query))
   \<and> (snd (make_github_request cfg up (get_github_issues_url owner repo
           (if state \<in> {''open'', ''closed'', ''all''} then state else ''open'') (min limit 30)))
        = JNull
      \<longrightarrow> snd (get_github_issues cfg up owner repo state limit)
            = Inr (''Unable to fetch issues for '' @ owner @ ''/'' @ repo))
   \<and> (snd (make_github_request cfg up (get_github_commits_url owner repo (min limit 20))) = JNull
      \<longrightarrow> snd (get_github_commits cfg up owner repo limit)
            = Inr (''Unable to fetch commits for '' @ owner @ ''/'' @ repo))
   \<and> (INDIAN_RAIL_API_KEY cfg = Some key \<and> key \<noteq> []
        \<and> snd (fetch_data up (station_name_to_code_url key (upper station_name)))
            = JObj [(''error'', JStr message)]
      \<longrightarrow> snd (station_name_to_code upper cfg up station_name)
            = Inr (''Error fetching station code: '' @ message))
   \<and> (INDIAN_RAIL_API_KEY cfg = Some key \<and> key \<noteq> []
        \<and> snd (fetch_data up (get_train_schedule_url key train_number))
            = JObj [(''error'', JStr message)]
      \<longrightarrow> snd (get_train_schedule_indian_rail cfg up train_number)
            = Inr (''Error fetching train schedule: '' @ message))
   \<and> (INDIAN_RAIL_API_KEY cfg = Some key \<and> key \<noteq> []
        \<and> snd (fetch_data up (get_all_trains_on_station_url key (upper station_code)))
            = JObj [(''error'', JStr message)]
      \<longrightarrow> snd (get_all_trains_on_station upper cfg up station_code)
            = Inr (''Error fetching trains for station: '' @ message))"
  using weather_absent [of up state latitude longitude]
    forecast_absent [of up latitude longitude d p u]
    github_absent [of cfg up username limit owner repo query state]
    rail_absent [of cfg key up upper station_name message train_number station_code]
  by blast

theorem absent_data_gives_failure_text_witness:
  "snd (get_alerts (failing ''timeout'') ''CA'') = Inr ''Unable to fetch alerts or no alerts found.''
   \<and> snd (get_forecast points_only (PyFloat ''39.7456'') (PyFloat ''-97.0892''))
       = Inr ''Unable to fetch detailed forecast.''
   \<and> snd (get_github_user with_credentials (failing ''timeout'') ''octocat'')
       = Inr ''Unable to fetch user information for octocat''
   \<and> snd (get_train_schedule_indian_rail with_credentials (failing ''timeout'') ''12951'')
       = Inr ''Error fetching train schedule: timeout''"
proof -
  have alerts: "snd (make_nws_request (failing ''timeout'') (JStr (get_alerts_url ''CA''))) = JNull"
    by (simp add: failing_def)
  have user: "snd (make_github_request with_credentials (failing ''timeout'')
      (get_github_user_url ''octocat'')) = JNull"
    by (simp add: failing_def make_github_request_def)
  have key: "INDIAN_RAIL_API_KEY with_credentials = Some ''KEY''" "''KEY'' \<noteq> []"
    by (simp_all add: with_credentials_def)
  have schedule: "snd (fetch_data (failing ''timeout'') (get_train_schedule_url ''KEY'' ''12951''))
      = JObj [(''error'', JStr ''timeout'')]"
    by (simp add: failing_def fetch_data_def)
  have points: "snd (make_nws_request points_only
      (JStr (get_forecast_url (PyFloat ''39.7456'') (PyFloat ''-97.0892''))))
      = JObj [(''properties'',
          JObj [(''forecast'', JStr ''https://api.weather.gov/gridpoints/TOP/31,80/forecast'')])]"
    by (simp add: points_only_def get_forecast_url_def NWS_API_BASE_def nws_request_def)
  have properties: "map_of [(''properties'',
          JObj [(''forecast'', JStr ''https://api.weather.gov/gridpoints/TOP/31,80/forecast'')])]
        ''properties''
      = Some (JObj [(''forecast'', JStr ''https://api.weather.gov/gridpoints/TOP/31,80/forecast'')])"
    by simp
  have forecast: "map_of [(''forecast'', JStr ''https://api.weather.gov/gridpoints/TOP/31,80/forecast'')]
        ''forecast''
      = Some (JStr ''https://api.weather.gov/gridpoints/TOP/31,80/forecast'')"
    by simp
  have detailed: "snd (make_nws_request points_only
      (JStr ''https://api.weather.gov/gridpoints/TOP/31,80/forecast'')) = JNull"
    by (simp add: points_only_def nws_request_def)
  have first: "snd (get_alerts (failing ''timeout'') ''CA'')
        = Inr ''Unable to fetch alerts or no alerts found.''
      \<and> snd (get_github_user with_credentials (failing ''timeout'') ''octocat'')
        = Inr (''Unable to fetch user information for '' @ ''octocat'')
      \<and> snd (get_train_schedule_indian_rail with_credentials (failing ''timeout'') ''12951'')
        = Inr (''Error fetching train schedule: '' @ ''timeout'')"
    using alerts user key schedule
      absent_data_gives_failure_text [where up = "failing ''timeout''" and state = "''CA''"
        and cfg = with_credentials and username = "''octocat''" and key = "''KEY''"
        and train_number = "''12951''" and message = "''timeout''"]
    by blast
  have second: "snd (get_forecast points_only (PyFloat ''39.7456'') (PyFloat ''-97.0892''))
      = Inr ''Unable to fetch detailed forecast.''"
    using points properties forecast detailed
      absent_data_gives_failure_text [where up = points_only
        and latitude = "PyFloat ''39.7456''" and longitude = "PyFloat ''-97.0892''"
        and d = "[(''properties'',
          JObj [(''forecast'', JStr ''https://api.weather.gov/gridpoints/TOP/31,80/forecast'')])]"
        and p = "[(''forecast'', JStr ''https://api.weather.gov/gridpoints/TOP/31,80/forecast'')]"
        and u = "JStr ''https://api.weather.gov/gridpoints/TOP/31,80/forecast''"]
    by blast
  from first second show ?thesis
    by simp
qed

section \<open>The limit in the upstream query\<close>

text \<open>
  C5. For every requested limit, the one request a list tool issues has the clamped
  value as \<^verbatim>\<open>per_page\<close>: \<open>min limit 50\<close> for \<^verbatim>\<open>get_github_repos\<close>, \<open>min limit 30\<close> for
  \<^verbatim>\<open>search_github_repos\<close> and \<^verbatim>\<open>get_github_issues\<close>, \<open>min limit 20\<close> for
  \<^verbatim>\<open>get_github_commits\<close>, whatever the upstream answers. In particular
  \<^verbatim>\<open>get_github_repos("octocat", limit=100)\<close> requests \<^verbatim>\<open>per_page=50\<close>.
\<close>

theorem per_page_clamped:
  "map url (fst (get_github_repos cfg up username limit))
     = [GITHUB_API_BASE @ ''/users/'' @ username @ ''/repos?sort=updated&per_page=''
          @ str_int (min limit 50)]
   \<and> map url (fst (search_github_repos cfg up query limit))
     = [GITHUB_API_BASE @ ''/search/repositories?q='' @ query
          @ ''&sort=stars&order=desc&per_page='' @ str_int (min limit 30)]
   \<and> map url (fst (get_github_issues cfg up owner repo state limit))
     = [GITHUB_API_BASE @ ''/repos/'' @ owner @ ''/'' @ repo @ ''/issues?state=''
          @ (if state \<in> {''open'', ''closed'', ''all''} then state else ''open'')
          @ ''&per_page='' @ str_int (min limit 30)]
   \<and> map url (fst (get_github_commits cfg up owner repo limit))
     = [GITHUB_API_BASE @ ''/repos/'' @ owner @ ''/'' @ repo @ ''/commits?per_page=''
          @ str_int (min limit 20)]
   \<and> map url (fst (get_github_repos cfg up ''octocat'' 100))
     = [''https://api.github.com/users/octocat/repos?sort=updated&per_page=50'']"
proof -
  have fifty: "str_int 50 = ''50''"
    by code_simp
  have repos: "map url (fst (get_github_repos c u n l)) = [get_github_repos_url n (min l 50)]"
    for c u n l
    by (simp add: get_github_repos_def make_github_request_def github_request_def Let_def)
  have search: "map url (fst (search_github_repos cfg up query limit))
      = [search_github_repos_url query (min limit 30)]"
    by (simp add: search_github_repos_def make_github_request_def github_request_def Let_def
        split: sum.split)
  have issues: "map url (fst (get_github_issues cfg up owner repo state limit))
      = [get_github_issues_url owner repo
           (if state \<in> {''open'', ''closed'', ''all''} then state else ''open'') (min limit 30)]"
    by (simp add: get_github_issues_def make_github_request_def github_request_def Let_def)
  have commits: "map url (fst (get_github_commits cfg up owner repo limit))
      = [get_github_commits_url owner repo (min limit 20)]"
    by (simp add: get_github_commits_def make_github_request_def github_request_def Let_def)
  have octocat: "get_github_repos_url ''octocat'' (min 100 50)
      = ''https://api.github.com/users/octocat/repos?sort=updated&per_page=50''"
    by (simp add: get_github_repos_url_def GITHUB_API_BASE_def fifty)
  show ?thesis
    using repos [of cfg up username limit] repos [of cfg up "''octocat''" 100]
      search issues commits octocat
    by (simp only: get_github_repos_url_def search_github_repos_url_def
        get_github_issues_url_def get_github_commits_url_def append_assoc)
qed

theorem per_page_clamped_witness:
  "map url (fst (get_github_commits with_credentials (failing ''timeout'') ''python'' ''cpython'' 1000))
     = [''https://api.github.com/repos/python/cpython/commits?per_page=20'']"
proof -
  have twenty: "str_int 20 = ''20''"
    by code_simp
  show ?thesis
    using per_page_clamped [of with_credentials "failing ''timeout''" "''x''" 1000 "''q''"
        "''python''" "''cpython''" "''open''"]
    by (simp add: twenty GITHUB_API_BASE_def)
qed

section \<open>The rail tools without their credential\<close>

text \<open>
  C6. When \<^verbatim>\<open>INDIAN_RAIL_API_KEY\<close> is unset, each of the three rail tools returns exactly
  \<^verbatim>\<open>Indian Rail API key not configured\<close> and issues no request, for every input and
  every upstream. (The same holds for a key that is set to the empty string.)
\<close>

theorem rail_key_not_configured:
  assumes "INDIAN_RAIL_API_KEY cfg = None \<or> INDIAN_RAIL_API_KEY cfg = Some []"
  shows "station_name_to_code upper cfg up station_name
           = ([], Inr ''Indian Rail API key not configured'')
       \<and> get_train_schedule_indian_rail cfg up train_number
           = ([], Inr ''Indian Rail API key not configured'')
       \<and> get_all_trains_on_station upper cfg up station_code
           = ([], Inr ''Indian Rail API key not configured'')"
  using assms
  by (auto simp: station_name_to_code_def get_train_schedule_indian_rail_def
      get_all_trains_on_station_def)

theorem rail_key_not_configured_witness:
  "INDIAN_RAIL_API_KEY no_credentials = None
   \<and> station_name_to_code ascii_upper no_credentials (answering (JObj [(''ResponseCode'', JInt 200)])) ''delhi''
       = ([], Inr ''Indian Rail API key not configured'')
   \<and> get_train_schedule_indian_rail no_credentials (failing ''timeout'') ''12951''
       = ([], Inr ''Indian Rail API key not configured'')
   \<and> get_all_trains_on_station ascii_upper no_credentials (failing ''timeout'') ''ndls''
       = ([], Inr ''Indian Rail API key not configured'')"
proof -
  have unset: "INDIAN_RAIL_API_KEY no_credentials = None"
    by (simp add: no_credentials_def)
  show ?thesis
    using unset
      rail_key_not_configured [of no_credentials ascii_upper
        "answering (JObj [(''ResponseCode'', JInt 200)])" "''delhi''"]
      rail_key_not_configured [of no_credentials ascii_upper "failing ''timeout''" _ "''12951''" "''ndls''"]
    by simp
qed

section \<open>The state filter of the issues tool\<close>

text \<open>
  C7. For every state that is not \<^verbatim>\<open>open\<close>, \<^verbatim>\<open>closed\<close> or \<^verbatim>\<open>all\<close>, and every owner,
  repository, limit, configuration and upstream, \<^verbatim>\<open>get_github_issues\<close> does what it
  does for the state \<^verbatim>\<open>open\<close>: the same request is issued and the same text (or
  exception) comes back.
\<close>

theorem issues_state_falls_back_to_open:
  assumes "state \<notin> {''open'', ''closed'', ''all''}"
  shows "get_github_issues cfg up owner repo state limit
           = get_github_issues cfg up owner repo ''open'' limit"
  using assms by (simp add: get_github_issues_def Let_def)

theorem issues_state_falls_back_to_open_witness:
  "''merged'' \<notin> {''open'', ''closed'', ''all''}
   \<and> get_github_issues no_credentials
         (answering (JList [JObj [(''number'', JInt 7), (''title'', JStr ''Crash'')]]))
         ''python'' ''cpython'' ''merged'' 5
     = get_github_issues no_credentials
         (answering (JList [JObj [(''number'', JInt 7), (''title'', JStr ''Crash'')]]))
         ''python'' ''cpython'' ''open'' 5"
proof -
  have other: "''merged'' \<notin> {''open'', ''closed'', ''all''}"
    by simp
  show ?thesis
    using other issues_state_falls_back_to_open [OF other, of no_credentials
        "answering (JList [JObj [(''number'', JInt 7), (''title'', JStr ''Crash'')]])"
        "''python''" "''cpython''" 5]
    by simp
qed

section \<open>No active alerts\<close>

text \<open>
  C8. When the upstream answers the request of \<^verbatim>\<open>get_alerts\<close> with a JSON object whose
  key \<^verbatim>\<open>features\<close> holds the empty list, the tool returns exactly
  \<^verbatim>\<open>No active alerts for this state.\<close>; this holds for every state, \<^verbatim>\<open>CA\<close> among them.
\<close>

theorem get_alerts_no_features:
  assumes "up (nws_request (get_alerts_url state)) = Inr (JObj d)"
    and "map_of d ''features'' = Some (JList [])"
  shows "snd (get_alerts up state) = Inr ''No active alerts for this state.''"
proof -
  from assms(2) have "d \<noteq> []"
    by auto
  with assms show ?thesis
    by (simp add: get_alerts_def get_alerts_text_def)
qed

theorem get_alerts_no_features_witness:
  "snd (get_alerts (answering (JObj [(''type'', JStr ''FeatureCollection''), (''features'', JList [])]))
         ''CA'')
     = Inr ''No active alerts for this state.''"
  using get_alerts_no_features [of
      "answering (JObj [(''type'', JStr ''FeatureCollection''), (''features'', JList [])])"
      "''CA''" "[(''type'', JStr ''FeatureCollection''), (''features'', JList [])]"]
  by (simp add: answering_def)

section \<open>Placeholders for absent fields\<close>



























section \<open>Fixed cuts of the tools without a limit\<close>

text \<open>
  The four tools without a limit read a list of the response through a slice:
  \<^verbatim>\<open>periods[:5]\<close>, \<^verbatim>\<open>stations[:5]\<close>, \<^verbatim>\<open>route[:10]\<close>, \<^verbatim>\<open>trains[:15]\<close>. The helper facts
  give, for a response that reaches the loop, the text as the pieces of the first items.
\<close>

lemma forecast_entries_bound: "forecast_entries periods = Inr forecasts \<Longrightarrow> length forecasts \<le> 5"
  by (cases periods) (auto simp: forecast_entries_def dest: collect_length)

lemma forecast_first_five:
  assumes "map_of d ''properties'' = Some (JObj p)" and "map_of p ''periods'' = Some (JList ps)"
  shows "get_forecast_text (JObj d)
           = (case collect format_period (take 5 ps) of
                Inl e \<Rightarrow> Inl e
              | Inr forecasts \<Rightarrow> Inr (py_join separator forecasts))"
  using assms
  by (simp add: get_forecast_text_def forecast_entries_def and_then_def)

lemma stations_first_five:
  assumes "map_of d ''error'' = None" and "map_of d ''ResponseCode'' = Some (JInt 200)"
    and "map_of d ''Station'' = Some (JList ss)" and "ss \<noteq> []"
  shows "station_name_to_code_text station_name (JObj d)
           = (case collect station_lines (take 5 ss) of
                Inl e \<Rightarrow> Inl e
              | Inr pieces \<Rightarrow> Inr (''Station codes found:\<newline>'' @ concat pieces))"
  using assms
  by (simp add: station_name_to_code_text_def response_has_def dict_get_def
      append_each_collect split: sum.split)

lemma route_first_ten:
  assumes "map_of d ''error'' = None" and "map_of d ''ResponseCode'' = Some (JInt 200)"
    and "map_of d ''Route'' = Some (JList stops)" and "stops \<noteq> []"
  shows "get_train_schedule_text train_number (JObj d)
           = (case collect stop_lines (take 10 stops) of
                Inl e \<Rightarrow> Inl e
              | Inr pieces \<Rightarrow> Inr (''Train '' @ train_number @ '' Schedule:\<newline>''
                  @ ''Train Name: '' @ py_str (dict_get d ''TrainName'' (JStr ''N/A'')) @ ''\<newline>''
                  @ ''Train Number: '' @ py_str (dict_get d ''TrainNumber'' (JStr ''N/A''))
                  @ ''\<newline>\<newline>'' @ ''Schedule:\<newline>'' @ concat pieces))"
  using assms
  by (simp add: get_train_schedule_text_def response_has_def dict_get_def
      append_each_collect split: sum.split)

lemma trains_first_fifteen:
  assumes "map_of d ''error'' = None" and "map_of d ''ResponseCode'' = Some (JInt 200)"
    and "map_of d ''Trains'' = Some (JList ts)" and "ts \<noteq> []"
  shows "get_all_trains_on_station_text station_code (JObj d)
           = (case collect train_lines (take 15 ts) of
                Inl e \<Rightarrow> Inl e
              | Inr pieces \<Rightarrow>
                  Inr (''Trains at station '' @ station_code @ '':\<newline>'' @ concat pieces))"
  using assms
  by (simp add: get_all_trains_on_station_text_def response_has_def dict_get_def
      append_each_collect split: sum.split)

text \<open>Cutting the list of the response to its first items changes nothing.\<close>

lemma forecast_cut:
  assumes "map_of d ''properties'' = Some (JObj p)" and "map_of p ''periods'' = Some (JList ps)"
  shows "get_forecast_text (JObj d)
           = get_forecast_text (JObj (AList.update ''properties''
               (JObj (AList.update ''periods'' (JList (take 5 ps)) p)) d))"
  using assms
  by (simp add: get_forecast_text_def forecast_entries_def update_conv')

lemma stations_cut:
  assumes "map_of d ''Station'' = Some (JList ss)"
  shows "station_name_to_code_text station_name (JObj d)
           = station_name_to_code_text station_name
               (JObj (AList.update ''Station'' (JList (take 5 ss)) d))"
  using assms
  by (simp add: station_name_to_code_text_def response_has_def dict_get_def update_conv')

lemma route_cut:
  assumes "map_of d ''Route'' = Some (JList stops)"
  shows "get_train_schedule_text train_number (JObj d)
           = get_train_schedule_text train_number
               (JObj (AList.update ''Route'' (JList (take 10 stops)) d))"
  using assms
  by (simp add: get_train_schedule_text_def response_has_def dict_get_def update_conv')

lemma trains_cut:
  assumes "map_of d ''Trains'' = Some (JList ts)"
  shows "get_all_trains_on_station_text station_code (JObj d)
           = get_all_trains_on_station_text station_code
               (JObj (AList.update ''Trains'' (JList (take 15 ts)) d))"
  using assms
  by (simp add: get_all_trains_on_station_text_def response_has_def dict_get_def update_conv')

text \<open>The same at the level of the tools, for an upstream whose answer reaches the loop.\<close>

lemma forecast_tool:
  assumes "up (nws_request (get_forecast_url latitude longitude)) = Inr (JObj d0)"
    and "map_of d0 ''properties'' = Some (JObj p0)" and "map_of p0 ''forecast'' = Some (JStr u)"
    and "up (nws_request u) = Inr (JObj d)"
    and "map_of d ''properties'' = Some (JObj p)" and "map_of p ''periods'' = Some (JList ps)"
  shows "snd (get_forecast up latitude longitude)
           = (case collect format_period (take 5 ps) of
                Inl e \<Rightarrow> Inl e
              | Inr forecasts \<Rightarrow> Inr (py_join separator forecasts))"
proof -
  from assms(2,5) have "d0 \<noteq> []" "d \<noteq> []"
    by auto
  with assms(1-4) have "snd (get_forecast up latitude longitude) = get_forecast_text (JObj d)"
    by (simp add: get_forecast_def)
  with forecast_first_five [OF assms(5,6)] show ?thesis
    by simp
qed

lemma stations_tool:
  assumes "INDIAN_RAIL_API_KEY cfg = Some key" and "key \<noteq> []"
    and "up (fetch_request (station_name_to_code_url key (upper station_name))) = Inr (JObj d)"
    and "map_of d ''error'' = None" and "map_of d ''ResponseCode'' = Some (JInt 200)"
    and "map_of d ''Station'' = Some (JList ss)" and "ss \<noteq> []"
  shows "snd (station_name_to_code upper cfg up station_name)
           = (case collect station_lines (take 5 ss) of
                Inl e \<Rightarrow> Inl e
              | Inr pieces \<Rightarrow> Inr (''Station codes found:\<newline>'' @ concat pieces))"
proof -
  from assms(1-3) have "snd (station_name_to_code upper cfg up station_name)
      = station_name_to_code_text (upper station_name) (JObj d)"
    by (simp add: station_name_to_code_def fetch_data_def Let_def)
  with stations_first_five [OF assms(4-7)] show ?thesis
    by simp
qed

lemma route_tool:
  assumes "INDIAN_RAIL_API_KEY cfg = Some key" and "key \<noteq> []"
    and "up (fetch_request (get_train_schedule_url key train_number)) = Inr (JObj d)"
    and "map_of d ''error'' = None" and "map_of d ''ResponseCode'' = Some (JInt 200)"
    and "map_of d ''Route'' = Some (JList stops)" and "stops \<noteq> []"
  shows "snd (get_train_schedule_indian_rail cfg up train_number)
           = (case collect stop_lines (take 10 stops) of
                Inl e \<Rightarrow> Inl e
              | Inr pieces \<Rightarrow> Inr (''Train '' @ train_number @ '' Schedule:\<newline>''
                  @ ''Train Name: '' @ py_str (dict_get d ''TrainName'' (JStr ''N/A'')) @ ''\<newline>''
                  @ ''Train Number: '' @ py_str (dict_get d ''TrainNumber'' (JStr ''N/A''))
                  @ ''\<newline>\<newline>'' @ ''Schedule:\<newline>'' @ concat pieces))"
proof -
  from assms(1-3) have "snd (get_train_schedule_indian_rail cfg up train_number)
      = get_train_schedule_text train_number (JObj d)"
    by (simp add: get_train_schedule_indian_rail_def fetch_data_def)
  with route_first_ten [OF assms(4-7)] show ?thesis
    by simp
qed

lemma trains_tool:
  assumes "INDIAN_RAIL_API_KEY cfg = Some key" and "key \<noteq> []"
    and "up (fetch_request (get_all_trains_on_station_url key (upper station_code))) = Inr (JObj d)"
    and "map_of d ''error'' = None" and "map_of d ''ResponseCode'' = Some (JInt 200)"
    and "map_of d ''Trains'' = Some (JList ts)" and "ts \<noteq> []"
  shows "snd (get_all_trains_on_station upper cfg up station_code)
           = (case collect train_lines (take 15 ts) of
                Inl e \<Rightarrow> Inl e
              | Inr pieces \<Rightarrow>
                  Inr (''Trains at station '' @ upper station_code @ '':\<newline>'' @ concat pieces))"
proof -
  from assms(1-3) have "snd (get_all_trains_on_station upper cfg up station_code)
      = get_all_trains_on_station_text (upper station_code) (JObj d)"
    by (simp add: get_all_trains_on_station_def fetch_data_def Let_def)
  with trains_first_fifteen [OF assms(4-7)] show ?thesis
    by simp
qed

text \<open>
  C10. For every upstream response, \<^verbatim>\<open>get_forecast\<close> renders at most the first 5 forecast
  periods, \<^verbatim>\<open>station_name_to_code\<close> at most the first 5 stations,
  \<^verbatim>\<open>get_train_schedule_indian_rail\<close> at most the first 10 stops of the route and
  \<^verbatim>\<open>get_all_trains_on_station\<close> at most the first 15 trains:
  \<^item> for an upstream whose response reaches the loop, the result of the tool is built
    from the pieces of the first 5, 5, 10 and 15 items of the list, in order, and from
    nothing else of the list;
  \<^item> for any response, cutting the list to its first 5, 5, 10 and 15 items leaves the
    text of the tool as it is;
  \<^item> whatever value stands where the periods are expected, the list of forecasts has at
    most 5 entries.
\<close>

theorem fixed_cuts:
  "(up (nws_request (get_forecast_url latitude longitude)) = Inr (JObj d0)
      \<and> map_of d0 ''properties'' = Some (JObj p0) \<and> map_of p0 ''forecast'' = Some (JStr u)
      \<and> up (nws_request u) = Inr (JObj d)
      \<and> map_of d ''properties'' = Some (JObj p) \<and> map_of p ''periods'' = Some (JList items)
    \<longrightarrow> snd (get_forecast up latitude longitude)
          = (case collect format_period (take 5 items) of
               Inl e \<Rightarrow> Inl e
             | Inr forecasts \<Rightarrow> Inr (py_join separator forecasts)))
   \<and> (INDIAN_RAIL_API_KEY cfg = Some key \<and> key \<noteq> []
      \<and> up (fetch_request (station_name_to_code_url key (upper station_name))) = Inr (JObj d)
      \<and> map_of d ''error'' = None \<and> map_of d ''ResponseCode'' = Some (JInt 200)
      \<and> map_of d ''Station'' = Some (JList items) \<and> items \<noteq> []
    \<longrightarrow> snd (station_name_to_code upper cfg up station_name)
          = (case collect station_lines (take 5 items) of
               Inl e \<Rightarrow> Inl e
             | Inr pieces \<Rightarrow> Inr (''Station codes found:\<newline>'' @ concat pieces)))
   \<and> (INDIAN_RAIL_API_KEY cfg = Some key \<and> key \<noteq> []
      \<and> up (fetch_request (get_train_schedule_url key train_number)) = Inr (JObj d)
      \<and> map_of d ''error'' = None \<and> map_of d ''ResponseCode'' = Some (JInt 200)
      \<and> map_of d ''Route'' = Some (JList items) \<and> items \<noteq> []
    \<longrightarrow> snd (get_train_schedule_indian_rail cfg up train_number)
          = (case collect stop_lines (take 10 items) of
               Inl e \<Rightarrow> Inl e
             | Inr pieces \<Rightarrow> Inr (''Train '' @ train_number @ '' Schedule:\<newline>''
                 @ ''Train Name: '' @ py_str (dict_get d ''TrainName'' (JStr ''N/A'')) @ ''\<newline>''
                 @ ''Train Number: '' @ py_str (dict_get d ''TrainNumber'' (JStr ''N/A''))
                 @ ''\<newline>\<newline>'' @ ''Schedule:\<newline>'' @ concat pieces)))
   \<and> (INDIAN_RAIL_API_KEY cfg = Some key \<and> key \<noteq> []
      \<and> up (fetch_request (get_all_trains_on_station_url key (upper station_code))) = Inr (JObj d)
      \<and> map_of d ''error'' = None \<and> map_of d ''ResponseCode'' = Some (JInt 200)
      \<and> map_of d ''Trains'' = Some (JList items) \<and> items \<noteq> []
    \<longrightarrow> snd (get_all_trains_on_station upper cfg up station_code)
          = (case collect train_lines (take 15 items) of
               Inl e \<Rightarrow> Inl e
             | Inr pieces \<Rightarrow>
                 Inr (''Trains at station '' @ upper station_code @ '':\<newline>'' @ concat pieces)))
   \<and> (map_of d ''properties'' = Some (JObj p) \<and> map_of p ''periods'' = Some (JList items)
    \<longrightarrow> get_forecast_text (JObj d)
          = get_forecast_text (JObj (AList.update ''properties''
              (JObj (AList.update ''periods'' (JList (take 5 items)) p)) d)))
   \<and> (map_of d ''Station'' = Some (JList items)
    \<longrightarrow> station_name_to_code_text station_name (JObj d)
          = station_name_to_code_text station_name
              (JObj (AList.update ''Station'' (JList (take 5 items)) d)))
   \<and> (map_of d ''Route'' = Some (JList items)
    \<longrightarrow> get_train_schedule_text train_number (JObj d)
          = get_train_schedule_text train_number
              (JObj (AList.update ''Route'' (JList (take 10 items)) d)))
   \<and> (map_of d ''Trains'' = Some (JList items)
    \<longrightarrow> get_all_trains_on_station_text station_code (JObj d)
          = get_all_trains_on_station_text station_code
              (JObj (AList.update ''Trains'' (JList (take 15 items)) d)))
   \<and> (forecast_entries periods = Inr forecasts \<longrightarrow> length forecasts \<le> 5)"
  using forecast_tool [of up latitude longitude d0 p0 u d p items]
    stations_tool [of cfg key up upper station_name d items]
    route_tool [of cfg key up train_number d items]
    trains_tool [of cfg key up upper station_code d items]
    forecast_cut [of d p items] stations_cut [of d items station_name]
    route_cut [of d items train_number] trains_cut [of d items station_code]
    forecast_entries_bound [of periods forecasts]
  by blast

theorem fixed_cuts_witness:
  "map_of six_stations_response ''Station'' = Some (JList six_stations)
   \<and> length six_stations = 6
   \<and> snd (station_name_to_code ascii_upper with_credentials (answering (JObj six_stations_response)) ''delhi'')
       = Inr ''Station codes found:\<newline>Name: N/A\<newline>Code: A\<newline>State: N/A\<newline>---\<newline>Name: N/A\<newline>Code: B\<newline>State: N/A\<newline>---\<newline>Name: N/A\<newline>Code: C\<newline>State: N/A\<newline>---\<newline>Name: N/A\<newline>Code: D\<newline>State: N/A\<newline>---\<newline>Name: N/A\<newline>Code: E\<newline>State: N/A\<newline>---\<newline>''"
proof -
  have key: "INDIAN_RAIL_API_KEY with_credentials = Some ''KEY''" "''KEY'' \<noteq> []"
    by (simp_all add: with_credentials_def)
  have answer: "answering (JObj six_stations_response)
      (fetch_request (station_name_to_code_url ''KEY'' (ascii_upper ''delhi'')))
      = Inr (JObj six_stations_response)"
    by (simp add: answering_def)
  have no_error: "map_of six_stations_response ''error'' = None"
    and code: "map_of six_stations_response ''ResponseCode'' = Some (JInt 200)"
    and stations: "map_of six_stations_response ''Station'' = Some (JList six_stations)"
    by (simp_all add: six_stations_response_def)
  have some: "six_stations \<noteq> []" and six: "length six_stations = 6"
    by (simp_all add: six_stations_def)
  have pieces: "(case collect station_lines (take 5 six_stations) of
        Inl e \<Rightarrow> Inl e
      | Inr pieces \<Rightarrow> Inr (''Station codes found:\<newline>'' @ concat pieces))
      = Inr ''Station codes found:\<newline>Name: N/A\<newline>Code: A\<newline>State: N/A\<newline>---\<newline>Name: N/A\<newline>Code: B\<newline>State: N/A\<newline>---\<newline>Name: N/A\<newline>Code: C\<newline>State: N/A\<newline>---\<newline>Name: N/A\<newline>Code: D\<newline>State: N/A\<newline>---\<newline>Name: N/A\<newline>Code: E\<newline>State: N/A\<newline>---\<newline>''"
    by code_simp
  have "snd (station_name_to_code ascii_upper with_credentials (answering (JObj six_stations_response)) ''delhi'')
      = (case collect station_lines (take 5 six_stations) of
           Inl e \<Rightarrow> Inl e
         | Inr pieces \<Rightarrow> Inr (''Station codes found:\<newline>'' @ concat pieces))"
    using key answer no_error code stations some
      fixed_cuts [where up = "answering (JObj six_stations_response)"
        and upper = ascii_upper and cfg = with_credentials and key = "''KEY''"
        and station_name = "''delhi''"
        and d = six_stations_response and items = six_stations]
    by blast
  with pieces stations six show ?thesis
    by (simp only: simp_thms)
qed

end
